theory Spec2Isabelle
  imports Complex_Main "HOL-Library.Monad_Syntax" "HOL-Library.Log_Nat"
begin

section \<open>JavaScript values\<close>

text \<open>
  The payment routes read their inputs from a JSON request body. A field that may be
  absent (\<open>undefined\<close>) is an \<open>option\<close>. A string is a \<open>string\<close> whose characters
  are the UTF-16 code units \<open>0x00\<close> to \<open>0xFF\<close> (Basic Latin and Latin-1); strings with
  other code units are outside the model. A JavaScript number is the rational value of a
  finite IEEE 754 double, and the arithmetic of the source is the arithmetic of doubles,
  defined below. Date values are milliseconds (\<open>nat\<close>).
\<close>

definition truthy_str :: "string option \<Rightarrow> bool" where
  "truthy_str v = (case v of None \<Rightarrow> False | Some s \<Rightarrow> s \<noteq> [])"

definition truthy_num :: "rat option \<Rightarrow> bool" where
  "truthy_num v = (case v of None \<Rightarrow> False | Some n \<Rightarrow> n \<noteq> 0)"

text \<open>The value of a field already known to be truthy.\<close>

definition val_str :: "string option \<Rightarrow> string" where
  "val_str v = (case v of None \<Rightarrow> [] | Some s \<Rightarrow> s)"

text \<open>\<open>v || d\<close> on strings and on numbers.\<close>

definition or_str :: "string option \<Rightarrow> string \<Rightarrow> string" where
  "or_str v d = (case v of None \<Rightarrow> d | Some s \<Rightarrow> if s = [] then d else s)"

definition or_num :: "rat option \<Rightarrow> rat \<Rightarrow> rat" where
  "or_num v d = (case v of None \<Rightarrow> d | Some n \<Rightarrow> if n = 0 then d else n)"

subsection \<open>Double arithmetic\<close>

text \<open>
  The result of an IEEE 754 operation is the exact result rounded to the nearest double,
  a tie going to the even significand. \<open>double_round\<close> rounds a rational to 53
  significant bits; the exponent range is taken as unbounded, so the model is the
  arithmetic of the source wherever that neither overflows nor produces a subnormal.
  \<open>ilog2 x\<close> is the exponent of the leading bit of \<open>x\<close>.
\<close>

definition round_half_even :: "rat \<Rightarrow> int" where
  "round_half_even x =
     (let f = \<lfloor>x\<rfloor>; d = x - of_int f
      in if d < 1 / 2 then f else if 1 / 2 < d then f + 1
         else if even f then f else f + 1)"

definition pow2 :: "int \<Rightarrow> rat" where
  "pow2 n = (if 0 \<le> n then 2 ^ nat n else 1 / 2 ^ nat (- n))"

definition ilog2 :: "rat \<Rightarrow> int" where
  "ilog2 x =
     (let k = bitlen (fst (quotient_of \<bar>x\<bar>)) - bitlen (snd (quotient_of \<bar>x\<bar>))
      in if pow2 k \<le> \<bar>x\<bar> then k else k - 1)"

definition double_round :: "rat \<Rightarrow> rat" where
  "double_round x =
     (if x = 0 then 0
      else let u = pow2 (ilog2 x - 52) in of_int (round_half_even (x / u)) * u)"

text \<open>The largest finite double, and the rationals that are doubles.\<close>

definition max_double :: rat where
  "max_double = (2 ^ 53 - 1) * 2 ^ 971"

definition is_double :: "rat \<Rightarrow> bool" where
  "is_double x = (double_round x = x \<and> \<bar>x\<bar> \<le> max_double)"

text \<open>\<open>x * y\<close> and \<open>x / y\<close> on doubles.\<close>

definition fmul :: "rat \<Rightarrow> rat \<Rightarrow> rat" where
  "fmul x y = double_round (x * y)"

definition fdiv :: "rat \<Rightarrow> rat \<Rightarrow> rat" where
  "fdiv x y = double_round (x / y)"

text \<open>
  \<open>Math.round\<close>: the integer nearest to its argument, a tie going towards plus
  infinity. It is computed on the double it is given, exactly.
\<close>

definition Math_round :: "rat \<Rightarrow> int" where
  "Math_round x = \<lfloor>x + 1 / 2\<rfloor>"

subsection \<open>Strings\<close>

text \<open>
  \<open>String.prototype.trim\<close> strips white space and line terminators; among the code
  units of the model these are \<open>0x09\<close> to \<open>0x0D\<close>, the space and the no-break space
  \<open>0xA0\<close>. \<open>toLowerCase\<close> maps \<open>A\<close> to \<open>Z\<close> and the Latin-1 capitals \<open>0xC0\<close> to
  \<open>0xDE\<close> (the multiplication sign \<open>0xD7\<close> apart) to the code unit 32 above.
\<close>

definition is_space :: "char \<Rightarrow> bool" where
  "is_space c =
     (c \<in> set [CHR 0x09, CHR 0x0A, CHR 0x0B, CHR 0x0C, CHR 0x0D, CHR '' '', CHR 0xA0])"

definition trim :: "string \<Rightarrow> string" where
  "trim s = rev (dropWhile is_space (rev (dropWhile is_space s)))"

definition lower_char :: "char \<Rightarrow> char" where
  "lower_char c =
     (let n = (of_char c :: nat)
      in if (65 \<le> n \<and> n \<le> 90) \<or> (192 \<le> n \<and> n \<le> 222 \<and> n \<noteq> 215)
         then char_of (n + 32) else c)"

definition toLowerCase :: "string \<Rightarrow> string" where
  "toLowerCase s = map lower_char s"

text \<open>\<open>String(n).padStart(6, '0')\<close> for a natural number \<open>n\<close>.\<close>

definition digit_char :: "nat \<Rightarrow> char" where
  "digit_char d = ''0123456789'' ! d"

fun digits :: "nat \<Rightarrow> string" where
  "digits n = (if n < 10 then [digit_char n] else digits (n div 10) @ [digit_char (n mod 10)])"

declare digits.simps [simp del]

definition padStart6 :: "string \<Rightarrow> string" where
  "padStart6 s = replicate (6 - length s) CHR ''0'' @ s"

section \<open>The payment gateway and the signing key\<close>

text \<open>
  The Razorpay client and Node's \<open>crypto\<close> module are external libraries. The routes
  reach them through \<open>razorpay.orders.create\<close>, \<open>razorpay.payments.fetch\<close>,
  \<open>razorpay.payments.refund\<close> and
  \<open>crypto.createHmac("sha256", key).update(body).digest("hex")\<close>; the model takes the
  four as the fields of an environment, together with the clock read by \<open>new Date()\<close>.
  A gateway call that throws is \<open>Inl\<close> of its message. Every call made is appended to
  the world's gateway log, amounts in paise as the gateway receives them.
\<close>

record order_options =
  oo_amount :: int
  oo_currency :: string
  oo_receipt :: string
  oo_notes :: "(string \<times> string) list"

record refund_options =
  ro_payment_id :: string
  ro_notes :: "(string \<times> string) list"
  ro_amount :: "int option"

datatype gateway_call =
    Orders_create order_options
  | Payments_fetch string
  | Payments_refund string refund_options

record gateway_order =
  go_id :: string
  go_amount :: int
  go_currency :: string
  go_receipt :: string
  go_status :: string
  go_created_at :: nat

record gateway_payment =
  gp_amount :: int
  gp_currency :: string
  gp_status :: string
  gp_method :: "string option"
  gp_bank :: "string option"
  gp_wallet :: "string option"
  gp_vpa :: "string option"

record gateway_refund =
  gr_id :: string
  gr_amount :: int
  gr_status :: string
  gr_created_at :: nat

record env =
  hmac_sha256_hex :: "string \<Rightarrow> string \<Rightarrow> string"
  orders_create :: "order_options \<Rightarrow> string + gateway_order"
  payments_fetch :: "string \<Rightarrow> string + gateway_payment"
  payments_refund :: "string \<Rightarrow> refund_options \<Rightarrow> string + gateway_refund"
  now :: nat

text \<open>\<open>razorpayConfig.test.key_secret\<close>.\<close>

definition key_secret :: string where
  "key_secret = ''KVRm4qSsf2kMhVD2fKvr0AZj''"

section \<open>Documents\<close>

text \<open>
  A MongoDB ObjectId is modelled by its 96-bit value, an integer. A client-supplied id
  is a string that Mongoose casts; the model casts a string of 24 hexadecimal digits and
  rejects every other string.
\<close>

type_synonym objectid = int

definition hex_digit :: "char \<Rightarrow> int option" where
  "hex_digit c =
     (let n = (of_char c :: int)
      in if 48 \<le> n \<and> n \<le> 57 then Some (n - 48)
         else if 97 \<le> n \<and> n \<le> 102 then Some (n - 87)
         else if 65 \<le> n \<and> n \<le> 70 then Some (n - 55)
         else None)"

fun hex_value :: "int \<Rightarrow> string \<Rightarrow> int option" where
  "hex_value acc [] = Some acc"
| "hex_value acc (c # cs) =
     (case hex_digit c of None \<Rightarrow> None | Some d \<Rightarrow> hex_value (16 * acc + d) cs)"

definition castObjectId :: "string \<Rightarrow> objectid option" where
  "castObjectId s = (if length s = 24 then hex_value 0 s else None)"

datatype id_in = IdObj objectid | IdStr string

definition cast_id :: "id_in \<Rightarrow> objectid option" where
  "cast_id v = (case v of IdObj i \<Rightarrow> Some i | IdStr s \<Rightarrow> castObjectId s)"

subsection \<open>What a request or a route hands to \<open>Order.create\<close>\<close>

record customer_payload =
  cp_firstName :: "string option"
  cp_lastName :: "string option"
  cp_email :: "string option"
  cp_phoneNumber :: "string option"

record address_payload =
  ap_streetAddress :: "string option"
  ap_city :: "string option"
  ap_state :: "string option"
  ap_postalCode :: "string option"
  ap_country :: "string option"

record item_payload =
  ip_productId :: "string option"
  ip_productName :: "string option"
  ip_quantity :: "rat option"
  ip_unitPrice :: "rat option"
  ip_totalPrice :: "rat option"

record pricing_payload =
  pp_subtotal :: "rat option"
  pp_tax :: "rat option"
  pp_shipping :: "rat option"
  pp_discount :: "rat option"
  pp_total :: "rat option"

record summary_payload =
  sp_method :: "string option"
  sp_status :: "string option"
  sp_transactionId :: "string option"
  sp_paidAt :: "nat option"

record order_payload =
  op_orderNumber :: "string option"
  op_customerInfo :: "customer_payload option"
  op_shippingAddress :: "address_payload option"
  op_billingAddress :: "address_payload option"
  op_items :: "item_payload list option"
  op_pricing :: "pricing_payload option"
  op_payment :: "summary_payload option"
  op_status :: "string option"

subsection \<open>Stored Order documents (\<open>orderSchema\<close>)\<close>

text \<open>
  The fields no route below writes (\<open>shipping\<close>, \<open>notes\<close>, \<open>createdAt\<close>,
  \<open>updatedAt\<close>) are left out. A collection is the list of its documents in insertion
  order, each paired with its \<open>_id\<close>.
\<close>

record customer_info =
  firstName :: string
  lastName :: string
  email :: string
  phoneNumber :: string

record address =
  streetAddress :: string
  city :: string
  state :: string
  postalCode :: string
  country :: string

record order_item =
  productId :: objectid
  productName :: string
  quantity :: rat
  unitPrice :: rat
  totalPrice :: rat

record amounts =
  subtotal :: rat
  tax :: rat
  shipping :: rat
  discount :: rat
  total :: rat

record payment_summary =
  ps_method :: string
  ps_status :: string
  ps_transactionId :: "string option"
  ps_paidAt :: "nat option"

record order =
  o_orderNumber :: string
  o_customerInfo :: customer_info
  o_shippingAddress :: address
  o_billingAddress :: address
  o_items :: "order_item list"
  o_pricing :: amounts
  o_payment :: payment_summary
  o_status :: string

subsection \<open>Payment documents (\<open>paymentSchema\<close>)\<close>

text \<open>
  The same record serves for the data handed to \<open>Payment.create\<close> and for the stored
  document; the two type parameters are the parts Mongoose casts (\<open>orderId\<close> and
  \<open>customerInfo\<close>). An absent \<open>paymentId\<close> is the empty string, which the pre-save
  hook treats as \<open>undefined\<close>. The card and bank-account fields of
  \<open>paymentMethod.details\<close> and \<open>notes\<close> are left out: no route below sets them.
\<close>

record razorpay_details =
  razorpayOrderId :: "string option"
  razorpayPaymentId :: "string option"
  razorpaySignature :: "string option"
  rz_method :: "string option"
  rz_bank :: "string option"
  rz_wallet :: "string option"
  rz_vpa :: "string option"

record payment_method =
  pm_type :: string
  pm_details :: razorpay_details

record transaction_details =
  td_transactionId :: "string option"
  td_gatewayTransactionId :: "string option"
  td_gatewayResponse :: "gateway_payment option"
  td_gatewayName :: "string option"
  td_processingFee :: rat

record refund_details =
  rd_refundId :: "string option"
  rd_refundAmount :: "rat option"
  rd_refundReason :: "string option"
  rd_refundStatus :: "string option"
  rd_refundedAt :: "nat option"

record timestamps =
  ts_initiatedAt :: "nat option"
  ts_processedAt :: "nat option"
  ts_completedAt :: "nat option"
  ts_failedAt :: "nat option"

record ('oid, 'cust) payment_doc =
  p_paymentId :: string
  p_orderId :: 'oid
  p_orderNumber :: string
  p_customerInfo :: 'cust
  p_paymentMethod :: payment_method
  p_amount :: amounts
  p_status :: string
  p_transactionDetails :: transaction_details
  p_refundDetails :: refund_details
  p_timestamps :: timestamps

type_synonym payment_data = "(id_in, customer_payload) payment_doc"
type_synonym payment = "(objectid, customer_info) payment_doc"

subsection \<open>The world: two collections and the gateway log\<close>

record world =
  orders :: "(objectid \<times> order) list"
  payments :: "(objectid \<times> payment) list"
  gateway_log :: "gateway_call list"

text \<open>What a route throws into its \<open>catch\<close> block, and the failure responses.\<close>

datatype exn =
    GatewayError string
  | ValidationError string
  | CastError string
  | DuplicateKey string
  | ReferenceError string

datatype failure =
    Status400 string
  | Status404 string
  | Status500 string exn

section \<open>Mongoose: casting, validation, hooks and unique indexes\<close>

definition fresh_id :: "world \<Rightarrow> objectid" where
  "fresh_id w = foldr max (map fst (orders w) @ map fst (payments w)) 0 + 1"

text \<open>A required string with \<open>trim: true\<close>: the trimmed value, which must not be empty.\<close>

definition req_trim :: "string option \<Rightarrow> string option" where
  "req_trim v = (case v of None \<Rightarrow> None | Some s \<Rightarrow> if trim s = [] then None else Some (trim s))"

text \<open>A number with \<open>min: m\<close>: required, or defaulting to \<open>d\<close>.\<close>

definition req_min :: "rat \<Rightarrow> rat option \<Rightarrow> rat option" where
  "req_min m v = (case v of None \<Rightarrow> None | Some n \<Rightarrow> if m \<le> n then Some n else None)"

definition default_min :: "rat \<Rightarrow> rat \<Rightarrow> rat option \<Rightarrow> rat option" where
  "default_min m d v = req_min m (Some (case v of None \<Rightarrow> d | Some n \<Rightarrow> n))"

definition cast_customerInfo :: "customer_payload option \<Rightarrow> customer_info option" where
  "cast_customerInfo v = do {
     c \<leftarrow> v;
     fn \<leftarrow> req_trim (cp_firstName c);
     ln \<leftarrow> req_trim (cp_lastName c);
     em \<leftarrow> req_trim (cp_email c);
     ph \<leftarrow> req_trim (cp_phoneNumber c);
     Some \<lparr>firstName = fn, lastName = ln, email = toLowerCase em, phoneNumber = ph\<rparr>
   }"

definition cast_address :: "address_payload option \<Rightarrow> address option" where
  "cast_address v = do {
     a \<leftarrow> v;
     sa \<leftarrow> req_trim (ap_streetAddress a);
     ci \<leftarrow> req_trim (ap_city a);
     st \<leftarrow> req_trim (ap_state a);
     pc \<leftarrow> req_trim (ap_postalCode a);
     co \<leftarrow> req_trim (ap_country a);
     Some \<lparr>streetAddress = sa, city = ci, state = st, postalCode = pc, country = co\<rparr>
   }"

definition cast_item :: "item_payload \<Rightarrow> order_item option" where
  "cast_item i = do {
     pid \<leftarrow> Option.bind (ip_productId i) castObjectId;
     pn \<leftarrow> (case ip_productName i of None \<Rightarrow> None | Some s \<Rightarrow> if s = [] then None else Some s);
     q \<leftarrow> req_min 1 (ip_quantity i);
     up \<leftarrow> req_min 0 (ip_unitPrice i);
     tp \<leftarrow> req_min 0 (ip_totalPrice i);
     Some \<lparr>productId = pid, productName = pn, quantity = q, unitPrice = up, totalPrice = tp\<rparr>
   }"

definition cast_items :: "item_payload list option \<Rightarrow> order_item list option" where
  "cast_items v = those (map cast_item (case v of None \<Rightarrow> [] | Some xs \<Rightarrow> xs))"

definition cast_pricing :: "pricing_payload option \<Rightarrow> amounts option" where
  "cast_pricing v = do {
     p \<leftarrow> v;
     su \<leftarrow> req_min 0 (pp_subtotal p);
     ta \<leftarrow> default_min 0 0 (pp_tax p);
     sh \<leftarrow> default_min 0 0 (pp_shipping p);
     di \<leftarrow> default_min 0 0 (pp_discount p);
     to \<leftarrow> req_min 0 (pp_total p);
     Some \<lparr>subtotal = su, tax = ta, shipping = sh, discount = di, total = to\<rparr>
   }"

definition order_payment_methods :: "string list" where
  "order_payment_methods =
     [''Credit Card'', ''Debit Card'', ''PayPal'', ''Bank Transfer'', ''Cash on Delivery'',
      ''Razorpay'']"

definition order_payment_statuses :: "string list" where
  "order_payment_statuses = [''Pending'', ''Paid'', ''Failed'', ''Refunded'']"

definition order_statuses :: "string list" where
  "order_statuses =
     [''Pending'', ''Confirmed'', ''Processing'', ''Shipped'', ''Delivered'', ''Cancelled'',
      ''Returned'']"

text \<open>A string with an \<open>enum\<close> and a default.\<close>

definition default_enum :: "string list \<Rightarrow> string \<Rightarrow> string option \<Rightarrow> string option" where
  "default_enum allowed d v =
     (let s = (case v of None \<Rightarrow> d | Some s \<Rightarrow> s) in if s \<in> set allowed then Some s else None)"

definition cast_summary :: "summary_payload option \<Rightarrow> payment_summary option" where
  "cast_summary v = do {
     s \<leftarrow> v;
     m \<leftarrow> Option.bind (sp_method s) (\<lambda>m. if m \<in> set order_payment_methods then Some m else None);
     st \<leftarrow> default_enum order_payment_statuses ''Pending'' (sp_status s);
     Some \<lparr>ps_method = m, ps_status = st,
           ps_transactionId = map_option trim (sp_transactionId s), ps_paidAt = sp_paidAt s\<rparr>
   }"

text \<open>The pre-save hook of \<open>orderSchema\<close>.\<close>

definition generated_orderNumber :: "world \<Rightarrow> string" where
  "generated_orderNumber w = ''ORD-'' @ padStart6 (digits (length (orders w) + 1))"

definition cast_order :: "world \<Rightarrow> order_payload \<Rightarrow> order option" where
  "cast_order w d = do {
     ci \<leftarrow> cast_customerInfo (op_customerInfo d);
     sa \<leftarrow> cast_address (op_shippingAddress d);
     ba \<leftarrow> cast_address (op_billingAddress d);
     its \<leftarrow> cast_items (op_items d);
     pr \<leftarrow> cast_pricing (op_pricing d);
     pa \<leftarrow> cast_summary (op_payment d);
     st \<leftarrow> default_enum order_statuses ''Pending'' (op_status d);
     Some \<lparr>o_orderNumber =
             (if truthy_str (op_orderNumber d) then val_str (op_orderNumber d)
              else generated_orderNumber w),
           o_customerInfo = ci, o_shippingAddress = sa, o_billingAddress = ba, o_items = its,
           o_pricing = pr, o_payment = pa, o_status = st\<rparr>
   }"

text \<open>
  \<open>Order.create\<close>: cast and validate, run the pre-save hook, insert under the unique
  index on \<open>orderNumber\<close>.
\<close>

definition Order_create :: "world \<Rightarrow> order_payload \<Rightarrow> (exn + objectid \<times> order) \<times> world" where
  "Order_create w d =
     (case cast_order w d of
        None \<Rightarrow> (Inl (ValidationError ''Order validation failed''), w)
      | Some doc \<Rightarrow>
          if o_orderNumber doc \<in> set (map (o_orderNumber \<circ> snd) (orders w))
          then (Inl (DuplicateKey ''orderNumber''), w)
          else (Inr (fresh_id w, doc), w\<lparr>orders := orders w @ [(fresh_id w, doc)]\<rparr>))"

definition payment_method_types :: "string list" where
  "payment_method_types =
     [''Credit Card'', ''Debit Card'', ''PayPal'', ''Bank Transfer'', ''Cash on Delivery'',
      ''Digital Wallet'', ''Razorpay'']"

definition payment_statuses :: "string list" where
  "payment_statuses =
     [''Pending'', ''Processing'', ''Completed'', ''Failed'', ''Cancelled'', ''Refunded'',
      ''Partially Refunded'']"

definition refund_statuses :: "string list" where
  "refund_statuses = [''Pending'', ''Processed'', ''Failed'']"

definition valid_amounts :: "amounts \<Rightarrow> bool" where
  "valid_amounts a =
     (0 \<le> subtotal a \<and> 0 \<le> tax a \<and> 0 \<le> shipping a \<and> 0 \<le> discount a \<and> 0 \<le> total a)"

definition cast_refundDetails :: "refund_details \<Rightarrow> refund_details option" where
  "cast_refundDetails r = do {
     rs \<leftarrow> default_enum refund_statuses ''Pending'' (rd_refundStatus r);
     if (case rd_refundAmount r of None \<Rightarrow> True | Some a \<Rightarrow> 0 \<le> a)
     then Some \<lparr>rd_refundId = map_option trim (rd_refundId r),
                rd_refundAmount = rd_refundAmount r,
                rd_refundReason = map_option trim (rd_refundReason r),
                rd_refundStatus = Some rs, rd_refundedAt = rd_refundedAt r\<rparr>
     else None
   }"

definition cast_details :: "razorpay_details \<Rightarrow> razorpay_details" where
  "cast_details d =
     \<lparr>razorpayOrderId = map_option trim (razorpayOrderId d),
      razorpayPaymentId = map_option trim (razorpayPaymentId d),
      razorpaySignature = map_option trim (razorpaySignature d),
      rz_method = map_option trim (rz_method d), rz_bank = map_option trim (rz_bank d),
      rz_wallet = map_option trim (rz_wallet d), rz_vpa = map_option trim (rz_vpa d)\<rparr>"

definition cast_transactionDetails :: "transaction_details \<Rightarrow> transaction_details option" where
  "cast_transactionDetails t =
     (if 0 \<le> td_processingFee t
      then Some \<lparr>td_transactionId = map_option trim (td_transactionId t),
                 td_gatewayTransactionId = map_option trim (td_gatewayTransactionId t),
                 td_gatewayResponse = td_gatewayResponse t,
                 td_gatewayName = map_option trim (td_gatewayName t),
                 td_processingFee = td_processingFee t\<rparr>
      else None)"

text \<open>The pre-save hook of \<open>paymentSchema\<close>.\<close>

definition generated_paymentId :: "world \<Rightarrow> string" where
  "generated_paymentId w = ''PAY-'' @ padStart6 (digits (length (payments w) + 1))"

definition cast_payment ::
  "world \<Rightarrow> nat \<Rightarrow> ('oid \<Rightarrow> objectid option) \<Rightarrow> ('cust \<Rightarrow> customer_info option) \<Rightarrow>
     ('oid, 'cust) payment_doc \<Rightarrow> payment option" where
  "cast_payment w t cast_oid cast_cust d = do {
     oid \<leftarrow> cast_oid (p_orderId d);
     onr \<leftarrow> req_trim (Some (p_orderNumber d));
     ci \<leftarrow> cast_cust (p_customerInfo d);
     ty \<leftarrow> (if pm_type (p_paymentMethod d) \<in> set payment_method_types
            then Some (pm_type (p_paymentMethod d)) else None);
     am \<leftarrow> (if valid_amounts (p_amount d) then Some (p_amount d) else None);
     st \<leftarrow> default_enum payment_statuses ''Pending'' (Some (p_status d));
     td \<leftarrow> cast_transactionDetails (p_transactionDetails d);
     rd \<leftarrow> cast_refundDetails (p_refundDetails d);
     Some \<lparr>p_paymentId = (if p_paymentId d = [] then generated_paymentId w else p_paymentId d),
           p_orderId = oid, p_orderNumber = onr, p_customerInfo = ci,
           p_paymentMethod = \<lparr>pm_type = ty, pm_details = cast_details (pm_details (p_paymentMethod d))\<rparr>,
           p_amount = am, p_status = st, p_transactionDetails = td, p_refundDetails = rd,
           p_timestamps = (p_timestamps d)
             \<lparr>ts_initiatedAt :=
                (case ts_initiatedAt (p_timestamps d) of None \<Rightarrow> Some t | Some i \<Rightarrow> Some i)\<rparr>\<rparr>
   }"

text \<open>
  \<open>Payment.create\<close>: cast and validate, run the pre-save hook, insert under the unique
  index on \<open>paymentId\<close>. The argument \<open>t\<close> is the clock, read by the schema default
  \<open>Date.now\<close> of \<open>timestamps.initiatedAt\<close>.
\<close>

definition Payment_create ::
  "world \<Rightarrow> nat \<Rightarrow> payment_data \<Rightarrow> (exn + objectid \<times> payment) \<times> world" where
  "Payment_create w t d =
     (case cast_payment w t cast_id (\<lambda>c. cast_customerInfo (Some c)) d of
        None \<Rightarrow> (Inl (ValidationError ''Payment validation failed''), w)
      | Some doc \<Rightarrow>
          if p_paymentId doc \<in> set (map (p_paymentId \<circ> snd) (payments w))
          then (Inl (DuplicateKey ''paymentId''), w)
          else (Inr (fresh_id w, doc), w\<lparr>payments := payments w @ [(fresh_id w, doc)]\<rparr>))"

text \<open>\<open>Payment.findOne({ paymentId: id })\<close>: the first document that matches.\<close>

definition Payment_findOne :: "world \<Rightarrow> string \<Rightarrow> (objectid \<times> payment) option" where
  "Payment_findOne w pid = find (\<lambda>(i, p). p_paymentId p = pid) (payments w)"

text \<open>
  \<open>payment.save()\<close> on a loaded document: the whole document is validated again, then
  written over the stored one with the same \<open>_id\<close>.
\<close>

definition customer_as_payload :: "customer_info \<Rightarrow> customer_payload" where
  "customer_as_payload c =
     \<lparr>cp_firstName = Some (firstName c), cp_lastName = Some (lastName c),
      cp_email = Some (email c), cp_phoneNumber = Some (phoneNumber c)\<rparr>"

definition Payment_save ::
  "world \<Rightarrow> nat \<Rightarrow> objectid \<times> payment \<Rightarrow> (exn + objectid \<times> payment) \<times> world" where
  "Payment_save w t ip =
     (case cast_payment w t Some (\<lambda>c. cast_customerInfo (Some (customer_as_payload c))) (snd ip) of
        None \<Rightarrow> (Inl (ValidationError ''Payment validation failed''), w)
      | Some doc \<Rightarrow>
          (Inr (fst ip, doc),
           w\<lparr>payments := map (\<lambda>q. if fst q = fst ip then (fst ip, doc) else q) (payments w)\<rparr>))"

section \<open>The Razorpay routes\<close>

subsection \<open>\<open>POST /api/razorpay/create-order\<close>\<close>

record create_order_req =
  co_amount :: "rat option"
  co_currency :: "string option"
  co_receipt :: "string option"
  co_notes :: "(string \<times> string) list option"

definition supportedCurrencies :: "string list" where
  "supportedCurrencies = [''INR'']"

definition to_paise :: "rat \<Rightarrow> int" where
  "to_paise amount = Math_round (fmul amount 100)"

definition post_create_order ::
  "env \<Rightarrow> world \<Rightarrow> create_order_req \<Rightarrow> (failure + gateway_order) \<times> world" where
  "post_create_order e w r =
     (case co_amount r of
        None \<Rightarrow> (Inl (Status400 ''Invalid amount''), w)
      | Some amount \<Rightarrow>
          if amount = 0 \<or> amount \<le> 0 then (Inl (Status400 ''Invalid amount''), w)
          else if \<not> truthy_str (co_receipt r) then (Inl (Status400 ''Missing receipt''), w)
          else
            let currency = (case co_currency r of None \<Rightarrow> ''INR'' | Some c \<Rightarrow> c)
            in if currency \<notin> set supportedCurrencies
               then (Inl (Status400 ''Unsupported currency''), w)
               else
                 let options =
                       \<lparr>oo_amount = to_paise amount, oo_currency = currency,
                        oo_receipt = val_str (co_receipt r),
                        oo_notes = (case co_notes r of None \<Rightarrow> [] | Some n \<Rightarrow> n)\<rparr>;
                     w1 = w\<lparr>gateway_log := gateway_log w @ [Orders_create options]\<rparr>
                 in (case orders_create e options of
                       Inl msg \<Rightarrow>
                         (Inl (Status500 ''Failed to create Razorpay order'' (GatewayError msg)), w1)
                     | Inr razorpayOrder \<Rightarrow> (Inr razorpayOrder, w1)))"

subsection \<open>\<open>POST /api/razorpay/verify-payment\<close>\<close>

record address_draft =
  ad_street_address :: "string option"
  ad_city :: "string option"
  ad_state :: "string option"
  ad_postal_code :: "string option"
  ad_country :: "string option"

record product_draft =
  pd_id :: "string option"
  pd_name :: "string option"
  pd_quantity :: "rat option"
  pd_price :: "rat option"
  pd_rental_price :: "rat option"

record order_draft =
  od_customerInfo :: "customer_payload option"
  od_address :: "address_draft option"
  od_products :: "product_draft list option"
  od_totalPrice :: "rat option"
  od_orderId :: "string option"

record verify_req =
  razorpay_order_id :: "string option"
  razorpay_payment_id :: "string option"
  razorpay_signature :: "string option"
  orderData :: "order_draft option"

record verify_response =
  vr_payment :: "objectid \<times> payment"
  vr_razorpay_order_id :: string
  vr_razorpay_payment_id :: string
  vr_amount :: rat
  vr_currency :: string
  vr_status :: string

definition expectedSignature :: "env \<Rightarrow> string \<Rightarrow> string \<Rightarrow> string" where
  "expectedSignature e order_id payment_id =
     hmac_sha256_hex e key_secret (order_id @ ''|'' @ payment_id)"

text \<open>\<open>orderData?.customerInfo?.firstName || 'Guest'\<close> and its siblings.\<close>

definition draft_customerInfo :: "order_draft option \<Rightarrow> customer_payload" where
  "draft_customerInfo od =
     (let c = Option.bind od od_customerInfo
      in \<lparr>cp_firstName = Some (or_str (Option.bind c cp_firstName) ''Guest''),
          cp_lastName = Some (or_str (Option.bind c cp_lastName) ''User''),
          cp_email = Some (or_str (Option.bind c cp_email) ''guest@example.com''),
          cp_phoneNumber = Some (or_str (Option.bind c cp_phoneNumber) ''0000000000'')\<rparr>)"

definition draft_address :: "order_draft option \<Rightarrow> address_payload" where
  "draft_address od =
     (let a = Option.bind od od_address
      in \<lparr>ap_streetAddress = Some (or_str (Option.bind a ad_street_address) ''Address''),
          ap_city = Some (or_str (Option.bind a ad_city) ''City''),
          ap_state = Some (or_str (Option.bind a ad_state) ''State''),
          ap_postalCode = Some (or_str (Option.bind a ad_postal_code) ''000000''),
          ap_country = Some (or_str (Option.bind a ad_country) ''India'')\<rparr>)"

definition draft_item :: "product_draft \<Rightarrow> item_payload" where
  "draft_item product =
     \<lparr>ip_productId = pd_id product,
      ip_productName = pd_name product,
      ip_quantity = Some (or_num (pd_quantity product) 1),
      ip_unitPrice = Some (or_num (pd_price product) (or_num (pd_rental_price product) 0)),
      ip_totalPrice =
        Some (fmul (or_num (pd_price product) (or_num (pd_rental_price product) 0))
                (or_num (pd_quantity product) 1))\<rparr>"

definition orderPayload :: "string \<Rightarrow> order_draft option \<Rightarrow> order_payload" where
  "orderPayload payment_id od =
     \<lparr>op_orderNumber = None,
      op_customerInfo = Some (draft_customerInfo od),
      op_shippingAddress = Some (draft_address od),
      op_billingAddress = Some (draft_address od),
      op_items =
        Some (case Option.bind od od_products of None \<Rightarrow> [] | Some ps \<Rightarrow> map draft_item ps),
      op_pricing =
        Some \<lparr>pp_subtotal = Some (or_num (Option.bind od od_totalPrice) 0), pp_tax = Some 0,
              pp_shipping = Some 0, pp_discount = Some 0,
              pp_total = Some (or_num (Option.bind od od_totalPrice) 0)\<rparr>,
      op_payment =
        Some \<lparr>sp_method = Some ''Razorpay'', sp_status = Some ''Pending'',
              sp_transactionId = Some payment_id, sp_paidAt = None\<rparr>,
      op_status = Some ''Pending''\<rparr>"

definition paymentData ::
  "nat \<Rightarrow> string \<Rightarrow> string \<Rightarrow> string \<Rightarrow> order_draft option \<Rightarrow> gateway_payment \<Rightarrow>
     objectid \<times> order \<Rightarrow> payment_data" where
  "paymentData t order_id payment_id signature od payment newOrder =
     \<lparr>p_paymentId = payment_id,
      p_orderId = IdObj (fst newOrder),
      p_orderNumber = o_orderNumber (snd newOrder),
      p_customerInfo = draft_customerInfo od,
      p_paymentMethod =
        \<lparr>pm_type = ''Razorpay'',
         pm_details =
           \<lparr>razorpayOrderId = Some order_id, razorpayPaymentId = Some payment_id,
            razorpaySignature = Some signature, rz_method = gp_method payment,
            rz_bank = (if truthy_str (gp_bank payment) then gp_bank payment else None),
            rz_wallet = (if truthy_str (gp_wallet payment) then gp_wallet payment else None),
            rz_vpa = (if truthy_str (gp_vpa payment) then gp_vpa payment else None)\<rparr>\<rparr>,
      p_amount =
        \<lparr>subtotal = or_num (Option.bind od od_totalPrice) (fdiv (of_int (gp_amount payment)) 100),
         tax = 0, shipping = 0, discount = 0,
         total = or_num (Option.bind od od_totalPrice) (fdiv (of_int (gp_amount payment)) 100)\<rparr>,
      p_status = (if gp_status payment = ''captured'' then ''Completed'' else ''Processing''),
      p_transactionDetails =
        \<lparr>td_transactionId = Some payment_id, td_gatewayTransactionId = Some payment_id,
         td_gatewayResponse = Some payment, td_gatewayName = Some ''Razorpay'',
         td_processingFee = 0\<rparr>,
      p_refundDetails =
        \<lparr>rd_refundId = None, rd_refundAmount = None, rd_refundReason = None,
         rd_refundStatus = None, rd_refundedAt = None\<rparr>,
      p_timestamps =
        \<lparr>ts_initiatedAt = Some t, ts_processedAt = Some t,
         ts_completedAt = (if gp_status payment = ''captured'' then Some t else None),
         ts_failedAt = None\<rparr>\<rparr>"

text \<open>Lines 228 to 231: a truthy \<open>orderData.orderId\<close> replaces the new order's id.\<close>

definition link_orderId :: "order_draft option \<Rightarrow> payment_data \<Rightarrow> payment_data" where
  "link_orderId od d =
     (if truthy_str (Option.bind od od_orderId)
      then d\<lparr>p_orderId := IdStr (val_str (Option.bind od od_orderId))\<rparr> else d)"

definition post_verify_payment ::
  "env \<Rightarrow> world \<Rightarrow> verify_req \<Rightarrow> (failure + verify_response) \<times> world" where
  "post_verify_payment e w r =
     (if \<not> truthy_str (razorpay_order_id r) \<or> \<not> truthy_str (razorpay_payment_id r)
         \<or> \<not> truthy_str (razorpay_signature r)
      then (Inl (Status400 ''Missing payment verification data''), w)
      else
        let order_id = val_str (razorpay_order_id r);
            payment_id = val_str (razorpay_payment_id r);
            signature = val_str (razorpay_signature r);
            isAuthentic = (expectedSignature e order_id payment_id = signature)
        in if \<not> isAuthentic then (Inl (Status400 ''Invalid payment signature''), w)
           else
             let w1 = w\<lparr>gateway_log := gateway_log w @ [Payments_fetch payment_id]\<rparr>
             in case payments_fetch e payment_id of
                  Inl msg \<Rightarrow> (Inl (Status500 ''Failed to verify payment'' (GatewayError msg)), w1)
                | Inr payment \<Rightarrow>
                    (case Order_create w1 (orderPayload payment_id (orderData r)) of
                       (Inl x, w2) \<Rightarrow> (Inl (Status500 ''Failed to verify payment'' x), w2)
                     | (Inr newOrder, w2) \<Rightarrow>
                         (case Payment_create w2 (now e)
                                 (link_orderId (orderData r)
                                    (paymentData (now e) order_id payment_id signature
                                       (orderData r) payment newOrder)) of
                            (Inl x, w3) \<Rightarrow> (Inl (Status500 ''Failed to verify payment'' x), w3)
                          | (Inr newPayment, w3) \<Rightarrow>
                              (Inr \<lparr>vr_payment = newPayment,
                                    vr_razorpay_order_id = order_id,
                                    vr_razorpay_payment_id = payment_id,
                                    vr_amount = fdiv (of_int (gp_amount payment)) 100,
                                    vr_currency = gp_currency payment,
                                    vr_status = gp_status payment\<rparr>, w3))))"

subsection \<open>\<open>POST /api/razorpay/refund\<close>\<close>

record refund_req =
  rr_payment_id :: "string option"
  rr_amount :: "rat option"
  rr_notes :: "(string \<times> string) list option"

record refund_response =
  rf_refund_id :: string
  rf_amount :: rat
  rf_status :: string
  rf_created_at :: nat

definition refundOptions :: "refund_req \<Rightarrow> refund_options" where
  "refundOptions r =
     \<lparr>ro_payment_id = val_str (rr_payment_id r),
      ro_notes = (case rr_notes r of None \<Rightarrow> [(''reason'', ''Customer request'')] | Some n \<Rightarrow> n),
      ro_amount =
        (case rr_amount r of
           None \<Rightarrow> None
         | Some amount \<Rightarrow> if amount \<noteq> 0 \<and> 0 < amount then Some (to_paise amount) else None)\<rparr>"

text \<open>Lines 336 to 347: the changes made to the loaded document before \<open>save()\<close>.\<close>

definition refunded_payment :: "nat \<Rightarrow> refund_req \<Rightarrow> gateway_refund \<Rightarrow> payment \<Rightarrow> payment" where
  "refunded_payment t r refund payment =
     (let payment1 = payment
            \<lparr>p_refundDetails :=
               \<lparr>rd_refundId = Some (gr_id refund),
                rd_refundAmount = Some (fdiv (of_int (gr_amount refund)) 100),
                rd_refundReason =
                  Some (or_str (Option.bind (rr_notes r) (\<lambda>n. map_of n ''reason''))
                          ''Customer request''),
                rd_refundStatus = Some (gr_status refund),
                rd_refundedAt = Some t\<rparr>\<rparr>
      in if gr_status refund = ''processed''
         then payment1
                \<lparr>p_status :=
                   (if of_int (gr_amount refund) = fmul (total (p_amount payment)) 100
                    then ''Refunded'' else ''Partially Refunded'')\<rparr>
         else payment1)"

definition post_refund ::
  "env \<Rightarrow> world \<Rightarrow> refund_req \<Rightarrow> (failure + refund_response) \<times> world" where
  "post_refund e w r =
     (if \<not> truthy_str (rr_payment_id r) then (Inl (Status400 ''Missing payment ID''), w)
      else
        let payment_id = val_str (rr_payment_id r);
            w1 = w\<lparr>gateway_log := gateway_log w @ [Payments_refund payment_id (refundOptions r)]\<rparr>
        in case payments_refund e payment_id (refundOptions r) of
             Inl msg \<Rightarrow> (Inl (Status500 ''Failed to process refund'' (GatewayError msg)), w1)
           | Inr refund \<Rightarrow>
               let response =
                     \<lparr>rf_refund_id = gr_id refund, rf_amount = fdiv (of_int (gr_amount refund)) 100,
                      rf_status = gr_status refund, rf_created_at = gr_created_at refund\<rparr>
               in (case Payment_findOne w1 payment_id of
                     None \<Rightarrow> (Inr response, w1)
                   | Some (i, payment) \<Rightarrow>
                       (case Payment_save w1 (now e) (i, refunded_payment (now e) r refund payment) of
                          (Inl x, w2) \<Rightarrow> (Inl (Status500 ''Failed to process refund'' x), w2)
                        | (Inr saved, w2) \<Rightarrow> (Inr response, w2))))"

section \<open>The payment and order routes\<close>

subsection \<open>\<open>PUT /api/payments/:id/status\<close>\<close>

text \<open>
  \<open>Payment.findByIdAndUpdate(id, { status, timestamps }, { new: true, runValidators: true })\<close>:
  the id is cast, the document with that \<open>_id\<close> gets the two paths set, and the
  updated document is returned, \<open>null\<close> when there is none.
\<close>

definition Payment_findByIdAndUpdate ::
  "world \<Rightarrow> string \<Rightarrow> string \<Rightarrow> timestamps \<Rightarrow> (exn + (objectid \<times> payment) option) \<times> world" where
  "Payment_findByIdAndUpdate w ident status ts =
     (case castObjectId ident of
        None \<Rightarrow> (Inl (CastError ''_id''), w)
      | Some i \<Rightarrow>
          if status \<notin> set payment_statuses
          then (Inl (ValidationError ''Validation failed''), w)
          else (case find (\<lambda>q. fst q = i) (payments w) of
                  None \<Rightarrow> (Inr None, w)
                | Some q \<Rightarrow>
                    (Inr (Some (i, (snd q)\<lparr>p_status := status, p_timestamps := ts\<rparr>)),
                     w\<lparr>payments :=
                         map (\<lambda>q. if fst q = i
                                   then (i, (snd q)\<lparr>p_status := status, p_timestamps := ts\<rparr>)
                                   else q) (payments w)\<rparr>)))"

text \<open>
  A \<open>const\<close> binding is uninitialised while its own initialiser runs; reading it then
  throws a ReferenceError.
\<close>

datatype 'a binding = Uninitialised | Initialised 'a

definition read_binding :: "'a binding \<Rightarrow> exn + 'a" where
  "read_binding b =
     (case b of
        Uninitialised \<Rightarrow> Inl (ReferenceError ''Cannot access payment before initialization'')
      | Initialised v \<Rightarrow> Inr v)"

definition validStatuses :: "string list" where
  "validStatuses =
     [''Pending'', ''Processing'', ''Completed'', ''Failed'', ''Cancelled'', ''Refunded'',
      ''Partially Refunded'']"

text \<open>Lines 822 to 827: the \<open>timestamps\<close> of the update document.\<close>

definition status_timestamps :: "nat \<Rightarrow> string \<Rightarrow> timestamps \<Rightarrow> timestamps" where
  "status_timestamps t status ts =
     ts\<lparr>ts_processedAt := (if status = ''Completed'' then Some t else ts_processedAt ts),
        ts_completedAt := (if status = ''Completed'' then Some t else ts_completedAt ts),
        ts_failedAt := (if status = ''Failed'' then Some t else ts_failedAt ts)\<rparr>"

text \<open>
  The route. The update document is an argument of the call whose result initialises
  \<open>const payment\<close>, and it reads \<open>payment.timestamps\<close>: the binding it reads is
  the uninitialised one. A throw lands in the route's \<open>catch\<close> block.
\<close>

definition put_payment_status ::
  "nat \<Rightarrow> world \<Rightarrow> string \<Rightarrow> string option \<Rightarrow> (failure + objectid \<times> payment) \<times> world" where
  "put_payment_status t w ident status =
     (if \<not> (case status of None \<Rightarrow> False | Some s \<Rightarrow> s \<in> set validStatuses)
      then (Inl (Status400 ''Invalid status''), w)
      else
        case read_binding (Uninitialised :: (objectid \<times> payment) binding) of
          Inl x \<Rightarrow> (Inl (Status500 ''Something went wrong!'' x), w)
        | Inr payment \<Rightarrow>
            (case Payment_findByIdAndUpdate w ident (val_str status)
                    (status_timestamps t (val_str status) (p_timestamps (snd payment))) of
               (Inl x, w1) \<Rightarrow> (Inl (Status500 ''Something went wrong!'' x), w1)
             | (Inr None, w1) \<Rightarrow> (Inl (Status404 ''Payment not found''), w1)
             | (Inr (Some updated), w1) \<Rightarrow> (Inr updated, w1)))"

subsection \<open>\<open>POST /api/orders\<close>\<close>

definition post_orders ::
  "world \<Rightarrow> order_payload \<Rightarrow> (failure + objectid \<times> order) \<times> world" where
  "post_orders w body =
     (if op_customerInfo body = None \<or> op_items body = None \<or> op_pricing body = None
      then (Inl (Status400 ''Missing required fields''), w)
      else if op_items body = Some [] then (Inl (Status400 ''Invalid items''), w)
      else if \<not> truthy_num (Option.bind (op_pricing body) pp_total)
              \<or> or_num (Option.bind (op_pricing body) pp_total) 0 \<le> 0
      then (Inl (Status400 ''Invalid pricing''), w)
      else case Order_create w body of
             (Inl x, w1) \<Rightarrow> (Inl (Status500 ''Something went wrong!'' x), w1)
           | (Inr newOrder, w1) \<Rightarrow> (Inr newOrder, w1))"

section \<open>The specification's rounding rule\<close>

text \<open>
  Section 4.1 of the specification asks for banker's rounding: the nearest integer, a tie
  going to the even neighbour. This definition follows the specification's words, to be
  compared with what the routes send.
\<close>

definition bankers_round :: "rat \<Rightarrow> int" where
  "bankers_round x =
     (let f = \<lfloor>x\<rfloor>; d = x - of_int f
      in if d < 1 / 2 then f else if 1 / 2 < d then f + 1
         else if even f then f else f + 1)"

section \<open>Sample requests and environments\<close>

definition sample_hmac :: "string \<Rightarrow> string \<Rightarrow> string" where
  "sample_hmac k m = ''hmac('' @ k @ '','' @ m @ '')''"

definition captured_payment :: gateway_payment where
  "captured_payment =
     \<lparr>gp_amount = 49900, gp_currency = ''INR'', gp_status = ''captured'',
      gp_method = Some ''upi'', gp_bank = None, gp_wallet = None, gp_vpa = Some ''a@upi''\<rparr>"

definition sample_env :: env where
  "sample_env =
     \<lparr>hmac_sha256_hex = sample_hmac,
      orders_create =
        (\<lambda>opts. Inr \<lparr>go_id = ''order_1'', go_amount = oo_amount opts,
                     go_currency = oo_currency opts, go_receipt = oo_receipt opts,
                     go_status = ''created'', go_created_at = 1\<rparr>),
      payments_fetch = (\<lambda>pid. if pid = ''pay_1'' then Inr captured_payment else Inl ''not found''),
      payments_refund =
        (\<lambda>pid opts. Inr \<lparr>gr_id = ''rfnd_1'',
                         gr_amount = (case ro_amount opts of None \<Rightarrow> 49900 | Some a \<Rightarrow> a),
                         gr_status = ''processed'', gr_created_at = 3\<rparr>),
      now = 2\<rparr>"

definition empty_world :: world where
  "empty_world = \<lparr>orders = [], payments = [], gateway_log = []\<rparr>"

definition sample_callback :: verify_req where
  "sample_callback =
     \<lparr>razorpay_order_id = Some ''order_1'', razorpay_payment_id = Some ''pay_1'',
      razorpay_signature = Some (sample_hmac key_secret ''order_1|pay_1''),
      orderData = None\<rparr>"

definition settled_world :: world where
  "settled_world = snd (post_verify_payment sample_env empty_world sample_callback)"

definition forged_callback :: verify_req where
  "forged_callback = sample_callback\<lparr>razorpay_signature := Some ''deadbeef''\<rparr>"

definition linked_callback :: verify_req where
  "linked_callback =
     sample_callback
       \<lparr>orderData :=
          Some \<lparr>od_customerInfo = None, od_address = None, od_products = None,
                od_totalPrice = Some 499, od_orderId = Some ''507f1f77bcf86cd799439011''\<rparr>\<rparr>"

definition scenario_callback :: verify_req where
  "scenario_callback =
     sample_callback
       \<lparr>orderData :=
          Some \<lparr>od_customerInfo = None, od_address = None,
                od_products =
                  Some [\<lparr>pd_id = Some ''p1'', pd_name = Some ''Tent'', pd_quantity = Some 2,
                         pd_price = Some (499 / 2), pd_rental_price = None\<rparr>],
                od_totalPrice = Some 499, od_orderId = None\<rparr>\<rparr>"

definition eighth_rupee_order :: create_order_req where
  "eighth_rupee_order =
     \<lparr>co_amount = Some (1 / 8), co_currency = None, co_receipt = Some ''R-1'', co_notes = None\<rparr>"

definition eighth_rupee_refund :: refund_req where
  "eighth_rupee_refund =
     \<lparr>rr_payment_id = Some ''pay_9'', rr_amount = Some (1 / 8), rr_notes = None\<rparr>"

definition full_refund :: refund_req where
  "full_refund = \<lparr>rr_payment_id = Some ''pay_1'', rr_amount = None, rr_notes = None\<rparr>"

definition sample_order_body :: order_payload where
  "sample_order_body =
     \<lparr>op_orderNumber = None,
      op_customerInfo =
        Some \<lparr>cp_firstName = Some ''Asha'', cp_lastName = Some ''Rao'',
              cp_email = Some ''Asha@Example.com'', cp_phoneNumber = Some ''9999999999''\<rparr>,
      op_shippingAddress =
        Some \<lparr>ap_streetAddress = Some ''1 Main Road'', ap_city = Some ''Pune'',
              ap_state = Some ''MH'', ap_postalCode = Some ''411001'',
              ap_country = Some ''India''\<rparr>,
      op_billingAddress =
        Some \<lparr>ap_streetAddress = Some ''1 Main Road'', ap_city = Some ''Pune'',
              ap_state = Some ''MH'', ap_postalCode = Some ''411001'',
              ap_country = Some ''India''\<rparr>,
      op_items =
        Some [\<lparr>ip_productId = Some ''507f1f77bcf86cd799439011'', ip_productName = Some ''Tent'',
               ip_quantity = Some 2, ip_unitPrice = Some (499 / 2), ip_totalPrice = Some 499\<rparr>],
      op_pricing =
        Some \<lparr>pp_subtotal = Some 499, pp_tax = None, pp_shipping = None, pp_discount = None,
              pp_total = Some 499\<rparr>,
      op_payment =
        Some \<lparr>sp_method = Some ''Razorpay'', sp_status = None, sp_transactionId = None,
              sp_paidAt = None\<rparr>,
      op_status = None\<rparr>"

section \<open>Auxiliary facts\<close>

lemma truthy_val_str: "truthy_str v \<Longrightarrow> val_str v \<noteq> [] \<and> v = Some (val_str v)"
  by (cases v) (simp_all add: truthy_str_def val_str_def)

lemma Math_round_cases:
  "Math_round x = (if x - of_int \<lfloor>x\<rfloor> < 1 / 2 then \<lfloor>x\<rfloor> else \<lfloor>x\<rfloor> + 1)"
proof -
  have lo: "of_int \<lfloor>x\<rfloor> \<le> x" and hi: "x < of_int \<lfloor>x\<rfloor> + 1"
    using floor_correct [of x] by simp_all
  show ?thesis
  proof (cases "x - of_int \<lfloor>x\<rfloor> < 1 / 2")
    case True
    have "\<lfloor>x + 1 / 2\<rfloor> = \<lfloor>x\<rfloor>"
      by (rule floor_unique) (use True lo in linarith)+
    with True show ?thesis by (simp add: Math_round_def)
  next
    case False
    have "\<lfloor>x + 1 / 2\<rfloor> = \<lfloor>x\<rfloor> + 1"
      by (rule floor_unique) (use False hi in simp_all)
    with False show ?thesis by (simp add: Math_round_def)
  qed
qed

lemma Math_round_vs_bankers:
  "Math_round x = bankers_round x \<or>
   (x - of_int \<lfloor>x\<rfloor> = 1 / 2 \<and> even \<lfloor>x\<rfloor> \<and> Math_round x = bankers_round x + 1)"
  unfolding Math_round_cases bankers_round_def Let_def by auto

text \<open>
  Three conversions as the source computes them. The decimal 1.005 is read as the double
  just below it and its double product with 100 is below 100.5; the double read from
  0.015 is below the decimal, yet its product with 100 is rounded to the double 1.5; one
  eighth times 100 is 12.5 exactly.
\<close>

lemma to_paise_examples:
  "to_paise (double_round (201 / 200)) = 100"
  "to_paise (double_round (3 / 200)) = 2"
  "to_paise (1 / 8) = 13"
  by code_simp+

subsection \<open>The Mongoose layer\<close>

lemma Order_create_cases:
  assumes "Order_create w d = (res, w')"
  shows "(\<exists>x. res = Inl x \<and> w' = w) \<or>
         (\<exists>doc. res = Inr (fresh_id w, doc) \<and> cast_order w d = Some doc \<and>
                w' = w\<lparr>orders := orders w @ [(fresh_id w, doc)]\<rparr>)"
  using assms by (auto simp: Order_create_def split: option.splits if_splits)

lemma Payment_create_cases:
  assumes "Payment_create w t d = (res, w')"
  shows "(\<exists>x. res = Inl x \<and> w' = w) \<or>
         (\<exists>doc. res = Inr (fresh_id w, doc) \<and>
                cast_payment w t cast_id (\<lambda>c. cast_customerInfo (Some c)) d = Some doc \<and>
                p_paymentId doc \<notin> set (map (p_paymentId \<circ> snd) (payments w)) \<and>
                w' = w\<lparr>payments := payments w @ [(fresh_id w, doc)]\<rparr>)"
  using assms by (auto simp: Payment_create_def split: option.splits if_splits)

lemma cast_payment_fields:
  assumes "cast_payment w t co cc d = Some doc"
  shows "co (p_orderId d) = Some (p_orderId doc)"
    and "p_paymentId doc = (if p_paymentId d = [] then generated_paymentId w else p_paymentId d)"
    and "p_status doc = p_status d"
    and "p_amount doc = p_amount d"
  using assms
  by (auto simp: cast_payment_def bind_eq_Some_conv default_enum_def Let_def split: if_splits)

lemma cast_order_fields:
  assumes "cast_order w d = Some doc"
  shows "cast_summary (op_payment d) = Some (o_payment doc)"
    and "cast_pricing (op_pricing d) = Some (o_pricing doc)"
  using assms by (auto simp: cast_order_def bind_eq_Some_conv)

lemma cast_pricing_total:
  assumes "cast_pricing (Some p) = Some a"
  shows "pp_total p = Some (total a)" and "0 \<le> total a"
  using assms
  by (auto simp: cast_pricing_def bind_eq_Some_conv req_min_def split: option.splits if_splits)

lemma cast_summary_orderPayload:
  assumes "cast_summary (op_payment (orderPayload pid od)) = Some s"
  shows "ps_status s = ''Pending''" and "ps_paidAt s = None"
  using assms
  by (auto simp: cast_summary_def orderPayload_def bind_eq_Some_conv default_enum_def
      order_payment_statuses_def split: if_splits)

lemma cast_pricing_orderPayload:
  assumes "cast_pricing (op_pricing (orderPayload pid od)) = Some a"
  shows "total a = or_num (Option.bind od od_totalPrice) 0" and "0 \<le> total a"
proof -
  have c: "cast_pricing
             (Some \<lparr>pp_subtotal = Some (or_num (Option.bind od od_totalPrice) 0),
                    pp_tax = Some 0, pp_shipping = Some 0, pp_discount = Some 0,
                    pp_total = Some (or_num (Option.bind od od_totalPrice) 0)\<rparr>) = Some a"
    using assms by (simp add: orderPayload_def)
  from cast_pricing_total [OF c]
  show "total a = or_num (Option.bind od od_totalPrice) 0" and "0 \<le> total a"
    by simp_all
qed

subsection \<open>The settlement route, case by case\<close>

lemma link_orderId_fields:
  "p_paymentId (link_orderId od d) = p_paymentId d"
  "p_status (link_orderId od d) = p_status d"
  "p_orderId (link_orderId od d)
     = (if truthy_str (Option.bind od od_orderId)
        then IdStr (val_str (Option.bind od od_orderId)) else p_orderId d)"
  by (simp_all add: link_orderId_def)

lemma paymentData_fields:
  "p_paymentId (paymentData t oid pid sg od gp io) = pid"
  "p_status (paymentData t oid pid sg od gp io)
     = (if gp_status gp = ''captured'' then ''Completed'' else ''Processing'')"
  "p_orderId (paymentData t oid pid sg od gp io) = IdObj (fst io)"
  by (simp_all add: paymentData_def)

lemma settled_paymentId:
  assumes "cast_payment wy t co cc (link_orderId od (paymentData t' oid pid sg od' gp io)) = Some doc"
    and "pid \<noteq> []"
  shows "p_paymentId doc = pid"
  using cast_payment_fields(2) [OF assms(1)] assms(2)
  by (simp add: link_orderId_fields paymentData_fields)

lemma settled_orderId:
  assumes "cast_payment wy t cast_id cc (link_orderId od (paymentData t' oid pid sg od' gp io)) = Some doc"
  shows "cast_id (if truthy_str (Option.bind od od_orderId)
                  then IdStr (val_str (Option.bind od od_orderId)) else IdObj (fst io))
         = Some (p_orderId doc)"
  using cast_payment_fields(1) [OF assms]
  by (simp add: link_orderId_fields paymentData_fields split: if_splits)

lemma settled_status:
  assumes "cast_payment wy t co cc (link_orderId od (paymentData t' oid pid sg od' gp io)) = Some doc"
  shows "p_status doc = (if gp_status gp = ''captured'' then ''Completed'' else ''Processing'')"
  using cast_payment_fields(3) [OF assms]
  by (simp add: link_orderId_fields paymentData_fields)

lemma pvp_success_raw:
  assumes "post_verify_payment e w r = (Inr resp, w')"
  shows "\<exists>gp io w2.
           truthy_str (razorpay_order_id r) \<and> truthy_str (razorpay_payment_id r) \<and>
           truthy_str (razorpay_signature r) \<and>
           expectedSignature e (val_str (razorpay_order_id r)) (val_str (razorpay_payment_id r))
             = val_str (razorpay_signature r) \<and>
           payments_fetch e (val_str (razorpay_payment_id r)) = Inr gp \<and>
           Order_create (w\<lparr>gateway_log := gateway_log w @ [Payments_fetch (val_str (razorpay_payment_id r))]\<rparr>)
             (orderPayload (val_str (razorpay_payment_id r)) (orderData r)) = (Inr io, w2) \<and>
           Payment_create w2 (now e)
             (link_orderId (orderData r)
                (paymentData (now e) (val_str (razorpay_order_id r))
                   (val_str (razorpay_payment_id r)) (val_str (razorpay_signature r))
                   (orderData r) gp io)) = (Inr (vr_payment resp), w') \<and>
           vr_status resp = gp_status gp"
  using assms
  by (auto simp: post_verify_payment_def Let_def split: if_splits sum.splits prod.splits)

lemma pvp_success:
  assumes "post_verify_payment e w r = (Inr resp, w')"
  shows "\<exists>gp io doc wx wy.
           truthy_str (razorpay_order_id r) \<and> truthy_str (razorpay_payment_id r) \<and>
           truthy_str (razorpay_signature r) \<and>
           payments_fetch e (val_str (razorpay_payment_id r)) = Inr gp \<and>
           vr_status resp = gp_status gp \<and>
           orders w' = orders w @ [io] \<and>
           payments w' = payments w @ [vr_payment resp] \<and>
           snd (vr_payment resp) = doc \<and>
           cast_order wx (orderPayload (val_str (razorpay_payment_id r)) (orderData r))
             = Some (snd io) \<and>
           cast_payment wy (now e) cast_id (\<lambda>c. cast_customerInfo (Some c))
             (link_orderId (orderData r)
                (paymentData (now e) (val_str (razorpay_order_id r))
                   (val_str (razorpay_payment_id r)) (val_str (razorpay_signature r))
                   (orderData r) gp io)) = Some doc \<and>
           (\<forall>q \<in> set (payments w). p_paymentId (snd q) \<noteq> p_paymentId doc)"
proof -
  from pvp_success_raw [OF assms] obtain gp io w2 where
    t: "truthy_str (razorpay_order_id r)" "truthy_str (razorpay_payment_id r)"
       "truthy_str (razorpay_signature r)"
    and f: "payments_fetch e (val_str (razorpay_payment_id r)) = Inr gp"
    and oc: "Order_create (w\<lparr>gateway_log := gateway_log w @ [Payments_fetch (val_str (razorpay_payment_id r))]\<rparr>)
             (orderPayload (val_str (razorpay_payment_id r)) (orderData r)) = (Inr io, w2)"
    and pc: "Payment_create w2 (now e)
             (link_orderId (orderData r)
                (paymentData (now e) (val_str (razorpay_order_id r))
                   (val_str (razorpay_payment_id r)) (val_str (razorpay_signature r))
                   (orderData r) gp io)) = (Inr (vr_payment resp), w')"
    and s: "vr_status resp = gp_status gp"
    by blast
  from Order_create_cases [OF oc] obtain wx where
    o1: "cast_order wx (orderPayload (val_str (razorpay_payment_id r)) (orderData r)) = Some (snd io)"
    and o2: "orders w2 = orders w @ [io]" and o3: "payments w2 = payments w"
    by auto
  from Payment_create_cases [OF pc] obtain doc where
    p1: "cast_payment w2 (now e) cast_id (\<lambda>c. cast_customerInfo (Some c))
             (link_orderId (orderData r)
                (paymentData (now e) (val_str (razorpay_order_id r))
                   (val_str (razorpay_payment_id r)) (val_str (razorpay_signature r))
                   (orderData r) gp io)) = Some doc"
    and p2: "p_paymentId doc \<notin> set (map (p_paymentId \<circ> snd) (payments w2))"
    and p3: "vr_payment resp = (fresh_id w2, doc)"
    and p4: "w' = w2\<lparr>payments := payments w2 @ [(fresh_id w2, doc)]\<rparr>"
    by auto
  have n: "orders w' = orders w @ [io]" "payments w' = payments w @ [vr_payment resp]"
    "snd (vr_payment resp) = doc"
    using o2 o3 p3 p4 by simp_all
  have u: "\<forall>q \<in> set (payments w). p_paymentId (snd q) \<noteq> p_paymentId doc"
    using p2 o3 by force
  from t f s n o1 p1 u show ?thesis by blast
qed

lemma pvp_failure_payments:
  assumes "post_verify_payment e w r = (Inl f, w')"
  shows "payments w' = payments w"
  using assms
  by (auto simp: post_verify_payment_def Let_def split: if_splits sum.splits prod.splits
      dest!: Order_create_cases Payment_create_cases)

lemma pvp_orders:
  assumes "post_verify_payment e w r = (res, w')"
  shows "orders w' = orders w \<or>
         (\<exists>io wx. cast_order wx (orderPayload (val_str (razorpay_payment_id r)) (orderData r))
                    = Some (snd io) \<and>
                  orders w' = orders w @ [io])"
  using assms
  by (auto simp: post_verify_payment_def Let_def split: if_splits sum.splits prod.splits
      dest!: Order_create_cases Payment_create_cases)

section \<open>Settlement: idempotence, linkage and the signature check\<close>

text \<open>
  C1, as amended. The route makes no look-up of an existing Payment before it creates
  records. What keeps the gateway payment id from being settled twice is the unique index
  on \<open>Payment.paymentId\<close>: when a settlement callback has succeeded, a later callback
  with the same gateway payment id, whatever else it carries and whatever the gateway
  answers, creates no Payment and is answered with a failure instead of the first
  result; exactly one stored Payment carries that id.
\<close>

theorem repeated_settlement_single_payment:
  assumes first: "post_verify_payment e1 w r1 = (Inr resp, w1)"
    and same: "razorpay_payment_id r2 = razorpay_payment_id r1"
    and second: "post_verify_payment e2 w1 r2 = (res2, w2)"
  shows "isl res2 \<and> payments w2 = payments w1 \<and>
         length (filter (\<lambda>ip. p_paymentId (snd ip) = val_str (razorpay_payment_id r1))
                   (payments w2)) = 1"
proof -
  define pid where "pid = val_str (razorpay_payment_id r1)"
  from pvp_success [OF first] obtain doc wy gp io where
    t: "truthy_str (razorpay_payment_id r1)"
    and c: "cast_payment wy (now e1) cast_id (\<lambda>c. cast_customerInfo (Some c))
              (link_orderId (orderData r1)
                 (paymentData (now e1) (val_str (razorpay_order_id r1)) pid
                    (val_str (razorpay_signature r1)) (orderData r1) gp io)) = Some doc"
    and fresh: "\<forall>q \<in> set (payments w). p_paymentId (snd q) \<noteq> p_paymentId doc"
    and grown: "payments w1 = payments w @ [vr_payment resp]"
    and new: "snd (vr_payment resp) = doc"
    unfolding pid_def by blast
  have ne: "pid \<noteq> []"
    using truthy_val_str [OF t] by (simp add: pid_def)
  have docid: "p_paymentId doc = pid"
    by (rule settled_paymentId [OF c ne])
  have none: "filter (\<lambda>ip. p_paymentId (snd ip) = pid) (payments w) = []"
    using fresh docid by (auto simp: filter_empty_conv)
  have one: "length (filter (\<lambda>ip. p_paymentId (snd ip) = pid) (payments w1)) = 1"
    using none grown new docid by simp
  have stored: "vr_payment resp \<in> set (payments w1)"
    using grown by simp
  have fail: "isl res2"
  proof (cases res2)
    case (Inl f)
    then show ?thesis by simp
  next
    case (Inr resp2)
    from pvp_success [OF second [unfolded Inr]] obtain doc2 wy2 gp2 io2 where
      c2: "cast_payment wy2 (now e2) cast_id (\<lambda>c. cast_customerInfo (Some c))
              (link_orderId (orderData r2)
                 (paymentData (now e2) (val_str (razorpay_order_id r2)) pid
                    (val_str (razorpay_signature r2)) (orderData r2) gp2 io2)) = Some doc2"
      and fresh2: "\<forall>q \<in> set (payments w1). p_paymentId (snd q) \<noteq> p_paymentId doc2"
      unfolding pid_def same [symmetric] by blast
    have "p_paymentId doc2 = pid"
      by (rule settled_paymentId [OF c2 ne])
    with fresh2 stored new docid show ?thesis by auto
  qed
  then obtain f where "res2 = Inl f" by (cases res2) simp_all
  with second have "payments w2 = payments w1"
    using pvp_failure_payments by blast
  with fail one show ?thesis by (simp add: pid_def)
qed

theorem repeated_settlement_witness:
  "isl (fst (post_verify_payment sample_env settled_world sample_callback)) \<and>
   payments (snd (post_verify_payment sample_env settled_world sample_callback))
     = payments settled_world \<and>
   length (filter (\<lambda>ip. p_paymentId (snd ip) = val_str (razorpay_payment_id sample_callback))
             (payments (snd (post_verify_payment sample_env settled_world sample_callback)))) = 1"
proof -
  have ok: "\<not> isl (fst (post_verify_payment sample_env empty_world sample_callback))"
    by code_simp
  have first: "post_verify_payment sample_env empty_world sample_callback
      = (Inr (projr (fst (post_verify_payment sample_env empty_world sample_callback))),
         settled_world)"
    using ok by (simp add: settled_world_def prod_eq_iff)
  have second: "post_verify_payment sample_env settled_world sample_callback
      = (fst (post_verify_payment sample_env settled_world sample_callback),
         snd (post_verify_payment sample_env settled_world sample_callback))"
    by simp
  show ?thesis
    by (rule repeated_settlement_single_payment [OF first refl second])
qed

text \<open>
  The claim as stated fails: resubmitting the sample callback after it has been settled
  is answered 500 (duplicate key on \<open>paymentId\<close>), not with the first result, and it
  leaves a second Order behind.
\<close>

theorem repeated_settlement_counterexample:
  "\<not> isl (fst (post_verify_payment sample_env empty_world sample_callback)) \<and>
   fst (post_verify_payment sample_env settled_world sample_callback)
     = Inl (Status500 ''Failed to verify payment'' (DuplicateKey ''paymentId'')) \<and>
   length (orders settled_world) = 1 \<and>
   length (orders (snd (post_verify_payment sample_env settled_world sample_callback))) = 2 \<and>
   length (payments (snd (post_verify_payment sample_env settled_world sample_callback))) = 1"
  by code_simp

text \<open>
  C2, as amended. For every callback with a matching signature whose gateway payment
  fetch succeeds, the route answers success exactly when both inserts are accepted: the
  Order built from the draft, and then the Payment, pass schema validation and the unique
  indexes. It has then appended exactly one Order and exactly one Payment (the one it
  returns). The Payment's \<open>orderId\<close> is the new Order's id when the draft carries no
  \<open>orderId\<close>; a truthy \<open>orderData.orderId\<close> replaces it, and the Payment then carries
  the ObjectId cast from that string. When the route answers a failure, no Payment has
  been created.
\<close>

theorem settle_creates_linked_pair:
  assumes "oid \<noteq> []" and "pid \<noteq> []" and "sg \<noteq> []"
    and "sg = hmac_sha256_hex e key_secret (oid @ ''|'' @ pid)"
    and "payments_fetch e pid = Inr gp"
  shows
    "(Order_create (w\<lparr>gateway_log := gateway_log w @ [Payments_fetch pid]\<rparr>)
         (orderPayload pid od) = (Inr io, w2) \<and>
      Payment_create w2 (now e)
         (link_orderId od (paymentData (now e) oid pid sg od gp io)) = (Inr ip, w3) \<longrightarrow>
        post_verify_payment e w
          \<lparr>razorpay_order_id = Some oid, razorpay_payment_id = Some pid,
           razorpay_signature = Some sg, orderData = od\<rparr>
          = (Inr \<lparr>vr_payment = ip, vr_razorpay_order_id = oid, vr_razorpay_payment_id = pid,
                  vr_amount = fdiv (of_int (gp_amount gp)) 100, vr_currency = gp_currency gp,
                  vr_status = gp_status gp\<rparr>, w3) \<and>
        orders w3 = orders w @ [io] \<and>
        payments w3 = payments w @ [ip] \<and>
        (\<not> truthy_str (Option.bind od od_orderId) \<longrightarrow> p_orderId (snd ip) = fst io) \<and>
        (truthy_str (Option.bind od od_orderId) \<longrightarrow>
           castObjectId (val_str (Option.bind od od_orderId)) = Some (p_orderId (snd ip)))) \<and>
     (post_verify_payment e w
          \<lparr>razorpay_order_id = Some oid, razorpay_payment_id = Some pid,
           razorpay_signature = Some sg, orderData = od\<rparr> = (Inr resp, w') \<longrightarrow>
        (\<exists>jo wa. Order_create (w\<lparr>gateway_log := gateway_log w @ [Payments_fetch pid]\<rparr>)
                    (orderPayload pid od) = (Inr jo, wa) \<and>
                 Payment_create wa (now e)
                    (link_orderId od (paymentData (now e) oid pid sg od gp jo))
                   = (Inr (vr_payment resp), w'))) \<and>
     (post_verify_payment e w
          \<lparr>razorpay_order_id = Some oid, razorpay_payment_id = Some pid,
           razorpay_signature = Some sg, orderData = od\<rparr> = (Inl f, w'') \<longrightarrow>
        payments w'' = payments w)"
proof (intro conjI impI)
  assume h: "Order_create (w\<lparr>gateway_log := gateway_log w @ [Payments_fetch pid]\<rparr>)
         (orderPayload pid od) = (Inr io, w2) \<and>
      Payment_create w2 (now e)
         (link_orderId od (paymentData (now e) oid pid sg od gp io)) = (Inr ip, w3)"
  then have oc: "Order_create (w\<lparr>gateway_log := gateway_log w @ [Payments_fetch pid]\<rparr>)
         (orderPayload pid od) = (Inr io, w2)"
    and pc: "Payment_create w2 (now e)
         (link_orderId od (paymentData (now e) oid pid sg od gp io)) = (Inr ip, w3)"
    by simp_all
  show "post_verify_payment e w
          \<lparr>razorpay_order_id = Some oid, razorpay_payment_id = Some pid,
           razorpay_signature = Some sg, orderData = od\<rparr>
          = (Inr \<lparr>vr_payment = ip, vr_razorpay_order_id = oid, vr_razorpay_payment_id = pid,
                  vr_amount = fdiv (of_int (gp_amount gp)) 100, vr_currency = gp_currency gp,
                  vr_status = gp_status gp\<rparr>, w3)"
    using assms oc pc
    by (simp add: post_verify_payment_def Let_def truthy_str_def val_str_def
        expectedSignature_def)
  from Order_create_cases [OF oc] have o: "orders w2 = orders w @ [io]"
    and op: "payments w2 = payments w"
    by auto
  from Payment_create_cases [OF pc] obtain doc where
    c: "cast_payment w2 (now e) cast_id (\<lambda>c. cast_customerInfo (Some c))
          (link_orderId od (paymentData (now e) oid pid sg od gp io)) = Some doc"
    and ip: "ip = (fresh_id w2, doc)"
    and w3: "w3 = w2\<lparr>payments := payments w2 @ [(fresh_id w2, doc)]\<rparr>"
    by auto
  show "orders w3 = orders w @ [io]"
    using o w3 by simp
  show "payments w3 = payments w @ [ip]"
    using op w3 ip by simp
  from settled_orderId [OF c]
  have l: "cast_id (if truthy_str (Option.bind od od_orderId)
                    then IdStr (val_str (Option.bind od od_orderId)) else IdObj (fst io))
           = Some (p_orderId (snd ip))"
    using ip by simp
  show "p_orderId (snd ip) = fst io" if "\<not> truthy_str (Option.bind od od_orderId)"
    using l that by (simp add: cast_id_def)
  show "castObjectId (val_str (Option.bind od od_orderId)) = Some (p_orderId (snd ip))"
    if "truthy_str (Option.bind od od_orderId)"
    using l that by (simp add: cast_id_def)
next
  assume "post_verify_payment e w
          \<lparr>razorpay_order_id = Some oid, razorpay_payment_id = Some pid,
           razorpay_signature = Some sg, orderData = od\<rparr> = (Inr resp, w')"
  from pvp_success_raw [OF this] assms(5)
  show "\<exists>jo wa. Order_create (w\<lparr>gateway_log := gateway_log w @ [Payments_fetch pid]\<rparr>)
                    (orderPayload pid od) = (Inr jo, wa) \<and>
                 Payment_create wa (now e)
                    (link_orderId od (paymentData (now e) oid pid sg od gp jo))
                   = (Inr (vr_payment resp), w')"
    by (auto simp: val_str_def)
next
  assume "post_verify_payment e w
          \<lparr>razorpay_order_id = Some oid, razorpay_payment_id = Some pid,
           razorpay_signature = Some sg, orderData = od\<rparr> = (Inl f, w'')"
  then show "payments w'' = payments w"
    by (rule pvp_failure_payments)
qed

theorem settle_creates_linked_pair_witness:
  "\<exists>io ip. \<not> isl (fst (post_verify_payment sample_env empty_world sample_callback)) \<and>
     vr_payment (projr (fst (post_verify_payment sample_env empty_world sample_callback))) = ip \<and>
     orders settled_world = orders empty_world @ [io] \<and>
     payments settled_world = payments empty_world @ [ip] \<and>
     p_orderId (snd ip) = fst io"
proof -
  define W where
    "W = empty_world\<lparr>gateway_log := gateway_log empty_world @ [Payments_fetch ''pay_1'']\<rparr>"
  define X where "X = Order_create W (orderPayload ''pay_1'' None)"
  define Y where
    "Y = Payment_create (snd X) (now sample_env)
           (link_orderId None
              (paymentData (now sample_env) ''order_1'' ''pay_1''
                 (sample_hmac key_secret ''order_1|pay_1'') None captured_payment
                 (projr (fst X))))"
  have okX: "\<not> isl (fst X)"
    unfolding X_def W_def by code_simp
  have okY: "\<not> isl (fst Y)"
    unfolding Y_def X_def W_def by code_simp
  have oc: "Order_create W (orderPayload ''pay_1'' None) = (Inr (projr (fst X)), snd X)"
    using okX by (simp add: X_def [symmetric] prod_eq_iff)
  have pc: "Payment_create (snd X) (now sample_env)
           (link_orderId None
              (paymentData (now sample_env) ''order_1'' ''pay_1''
                 (sample_hmac key_secret ''order_1|pay_1'') None captured_payment
                 (projr (fst X)))) = (Inr (projr (fst Y)), snd Y)"
    using okY by (simp add: Y_def [symmetric] prod_eq_iff)
  have ne: "''order_1'' \<noteq> []" "''pay_1'' \<noteq> []" "sample_hmac key_secret ''order_1|pay_1'' \<noteq> []"
    by (simp_all add: sample_hmac_def)
  have eq: "sample_hmac key_secret ''order_1|pay_1''
            = hmac_sha256_hex sample_env key_secret (''order_1'' @ ''|'' @ ''pay_1'')"
    by (simp add: sample_env_def)
  have fetch: "payments_fetch sample_env ''pay_1'' = Inr captured_payment"
    by (simp add: sample_env_def)
  have no_id: "\<not> truthy_str (Option.bind None od_orderId)"
    by (simp add: truthy_str_def)
  from settle_creates_linked_pair [OF ne eq fetch, of empty_world None "projr (fst X)" "snd X"
      "projr (fst Y)" "snd Y"] oc pc no_id
  have r: "post_verify_payment sample_env empty_world sample_callback
        = (Inr \<lparr>vr_payment = projr (fst Y), vr_razorpay_order_id = ''order_1'',
                vr_razorpay_payment_id = ''pay_1'',
                vr_amount = fdiv (of_int (gp_amount captured_payment)) 100,
                vr_currency = gp_currency captured_payment,
                vr_status = gp_status captured_payment\<rparr>, snd Y)"
    and o: "orders (snd Y) = orders empty_world @ [projr (fst X)]"
    and p: "payments (snd Y) = payments empty_world @ [projr (fst Y)]"
    and l: "p_orderId (snd (projr (fst Y))) = fst (projr (fst X))"
    unfolding W_def [symmetric] sample_callback_def by blast+
  have s: "settled_world = snd Y"
    using r by (simp add: settled_world_def)
  show ?thesis
    using r o p l s by (intro exI [of _ "projr (fst X)"] exI [of _ "projr (fst Y)"]) simp
qed

text \<open>
  The claim as stated fails twice. A callback whose draft names an \<open>orderId\<close> is
  settled with a Payment that points at that id, not at the Order just created. And a
  matching signature with a successful fetch does not make the route create anything:
  the callback of the specification's own scenario, whose product id \<open>p1\<close> is no
  ObjectId, is answered 500 by \<open>Order.create\<close> and leaves no Order and no Payment.
\<close>

theorem settle_link_counterexample:
  "\<not> isl (fst (post_verify_payment sample_env empty_world linked_callback)) \<and>
   map fst (orders (snd (post_verify_payment sample_env empty_world linked_callback))) = [1] \<and>
   map (p_orderId \<circ> snd) (payments (snd (post_verify_payment sample_env empty_world linked_callback)))
     = [0x507f1f77bcf86cd799439011] \<and>
   razorpay_signature scenario_callback
     = Some (expectedSignature sample_env ''order_1'' ''pay_1'') \<and>
   payments_fetch sample_env ''pay_1'' = Inr captured_payment \<and>
   post_verify_payment sample_env empty_world scenario_callback
     = (Inl (Status500 ''Failed to verify payment'' (ValidationError ''Order validation failed'')),
        \<lparr>orders = [], payments = [], gateway_log = [Payments_fetch ''pay_1'']\<rparr>)"
  by code_simp

text \<open>
  C3. A callback whose signature is not the expected one is answered with a client
  error and the world it leaves is the world it found: no Order, no Payment, no gateway
  call. With the three gateway fields present the error is the invalid-signature one;
  a callback that lacks one of them is refused earlier, as missing data.
\<close>

theorem invalid_signature_no_writes:
  assumes "razorpay_signature r
           \<noteq> Some (expectedSignature e (val_str (razorpay_order_id r))
                     (val_str (razorpay_payment_id r)))"
  shows "post_verify_payment e w r =
           (Inl (Status400
                  (if truthy_str (razorpay_order_id r) \<and> truthy_str (razorpay_payment_id r)
                      \<and> truthy_str (razorpay_signature r)
                   then ''Invalid payment signature''
                   else ''Missing payment verification data'')), w)"
proof (cases "truthy_str (razorpay_order_id r) \<and> truthy_str (razorpay_payment_id r)
              \<and> truthy_str (razorpay_signature r)")
  case True
  then have "razorpay_signature r = Some (val_str (razorpay_signature r))"
    using truthy_val_str by blast
  with assms have "expectedSignature e (val_str (razorpay_order_id r))
      (val_str (razorpay_payment_id r)) \<noteq> val_str (razorpay_signature r)"
    by auto
  with True show ?thesis
    by (simp add: post_verify_payment_def Let_def)
next
  case False
  then show ?thesis
    by (auto simp: post_verify_payment_def)
qed

theorem invalid_signature_witness:
  "post_verify_payment sample_env settled_world forged_callback
     = (Inl (Status400 ''Invalid payment signature''), settled_world)"
proof -
  have h: "razorpay_signature forged_callback
           \<noteq> Some (expectedSignature sample_env (val_str (razorpay_order_id forged_callback))
                     (val_str (razorpay_payment_id forged_callback)))"
    by code_simp
  have t: "truthy_str (razorpay_order_id forged_callback) \<and>
           truthy_str (razorpay_payment_id forged_callback) \<and>
           truthy_str (razorpay_signature forged_callback)"
    by code_simp
  show ?thesis
    using invalid_signature_no_writes [OF h, of settled_world] t by simp
qed

text \<open>
  C4. With the three gateway fields present, the route passes the signature check
  exactly when the submitted signature is the hex HMAC-SHA256, under the configured
  secret, of the gateway order id, a vertical bar and the gateway payment id. Any other
  signature is refused with the 400 answer, a value of the route and not an exception
  (an exception would be answered 500).
\<close>

theorem signature_check_exact:
  assumes "oid \<noteq> []" and "pid \<noteq> []" and "sg \<noteq> []"
  shows "(fst (post_verify_payment e w
                 \<lparr>razorpay_order_id = Some oid, razorpay_payment_id = Some pid,
                  razorpay_signature = Some sg, orderData = od\<rparr>)
            \<noteq> Inl (Status400 ''Invalid payment signature''))
         = (sg = hmac_sha256_hex e key_secret (oid @ ''|'' @ pid))"
  using assms
  by (auto simp: post_verify_payment_def Let_def expectedSignature_def truthy_str_def
      val_str_def split: sum.splits prod.splits)

theorem signature_check_exact_witness:
  "fst (post_verify_payment sample_env empty_world
          \<lparr>razorpay_order_id = Some ''order_1'', razorpay_payment_id = Some ''pay_1'',
           razorpay_signature = Some (sample_hmac key_secret ''order_1|pay_1''),
           orderData = None\<rparr>)
     \<noteq> Inl (Status400 ''Invalid payment signature'')"
proof -
  have ne: "''order_1'' \<noteq> []" "''pay_1'' \<noteq> []" "sample_hmac key_secret ''order_1|pay_1'' \<noteq> []"
    by (simp_all add: sample_hmac_def)
  have eq: "sample_hmac key_secret ''order_1|pay_1''
            = hmac_sha256_hex sample_env key_secret (''order_1'' @ ''|'' @ ''pay_1'')"
    by (simp add: sample_env_def)
  show ?thesis
    using signature_check_exact [OF ne, of sample_env empty_world None] eq by simp
qed

section \<open>Refunds\<close>

text \<open>
  C5. The claim is what the route is written to do, and the route's own schema defeats
  it. The route stores the gateway's refund status, the lower-case \<open>processed\<close> it has
  just compared against, in \<open>refundDetails.refundStatus\<close>, whose schema enum holds
  \<open>Pending\<close>, \<open>Processed\<close> and \<open>Failed\<close>. So whenever the gateway confirms a refund
  of a recorded Payment, \<open>payment.save()\<close> is rejected by validation: the route answers
  500 after the gateway has refunded, and the stored Payment keeps its old status and
  has no refund details.
\<close>

theorem confirmed_refund_not_recorded:
  assumes "truthy_str (rr_payment_id r)"
    and "payments_refund e (val_str (rr_payment_id r)) (refundOptions r) = Inr refund"
    and "gr_status refund = ''processed''"
    and "Payment_findOne w (val_str (rr_payment_id r)) = Some ip"
  shows "post_refund e w r =
     (Inl (Status500 ''Failed to process refund'' (ValidationError ''Payment validation failed'')),
      w\<lparr>gateway_log := gateway_log w @
           [Payments_refund (val_str (rr_payment_id r)) (refundOptions r)]\<rparr>)"
proof -
  have "cast_refundDetails (p_refundDetails (refunded_payment t r refund p)) = None" for t p
    using assms(3)
    by (simp add: cast_refundDetails_def refunded_payment_def default_enum_def refund_statuses_def)
  then have "cast_payment w' t co cc (refunded_payment t r refund p) = None" for w' t co cc p
    by (simp add: cast_payment_def bind_eq_None_conv)
  then show ?thesis
    using assms
    by (cases ip) (simp add: post_refund_def Let_def Payment_findOne_def Payment_save_def)
qed

theorem confirmed_refund_not_recorded_witness:
  "post_refund sample_env settled_world full_refund =
     (Inl (Status500 ''Failed to process refund'' (ValidationError ''Payment validation failed'')),
      settled_world\<lparr>gateway_log := gateway_log settled_world @
           [Payments_refund (val_str (rr_payment_id full_refund)) (refundOptions full_refund)]\<rparr>)"
proof -
  have h1: "truthy_str (rr_payment_id full_refund)"
    by code_simp
  have h2: "payments_refund sample_env (val_str (rr_payment_id full_refund))
              (refundOptions full_refund)
            = Inr \<lparr>gr_id = ''rfnd_1'', gr_amount = 49900, gr_status = ''processed'',
                   gr_created_at = 3\<rparr>"
    by code_simp
  have h3: "gr_status \<lparr>gr_id = ''rfnd_1'', gr_amount = 49900, gr_status = ''processed'',
                       gr_created_at = 3\<rparr> = ''processed''"
    by simp
  have h4: "Payment_findOne settled_world (val_str (rr_payment_id full_refund))
            = Some (hd (payments settled_world))"
    by code_simp
  show ?thesis
    by (rule confirmed_refund_not_recorded [OF h1 h2 h3 h4])
qed

text \<open>
  C6, as amended. The route calls the gateway's refund before it looks the Payment up,
  and a missing Payment only skips the update. For a refund request whose gateway payment
  id has no Payment record the refund call is therefore issued; the answer is the
  gateway's refund result, or a server error when the gateway call fails, and the two
  collections are left as they were.
\<close>

theorem refund_without_record:
  assumes "truthy_str (rr_payment_id r)"
    and "Payment_findOne w (val_str (rr_payment_id r)) = None"
  shows "post_refund e w r =
     ((case payments_refund e (val_str (rr_payment_id r)) (refundOptions r) of
         Inl msg \<Rightarrow> Inl (Status500 ''Failed to process refund'' (GatewayError msg))
       | Inr refund \<Rightarrow>
           Inr \<lparr>rf_refund_id = gr_id refund, rf_amount = fdiv (of_int (gr_amount refund)) 100,
                rf_status = gr_status refund, rf_created_at = gr_created_at refund\<rparr>),
      w\<lparr>gateway_log := gateway_log w @
           [Payments_refund (val_str (rr_payment_id r)) (refundOptions r)]\<rparr>)"
  using assms
  by (auto simp: post_refund_def Let_def Payment_findOne_def split: sum.splits)

theorem refund_without_record_witness:
  "gateway_log (snd (post_refund sample_env empty_world full_refund))
     = gateway_log empty_world @
         [Payments_refund (val_str (rr_payment_id full_refund)) (refundOptions full_refund)] \<and>
   orders (snd (post_refund sample_env empty_world full_refund)) = [] \<and>
   payments (snd (post_refund sample_env empty_world full_refund)) = []"
proof -
  have h1: "truthy_str (rr_payment_id full_refund)"
    by code_simp
  have h2: "Payment_findOne empty_world (val_str (rr_payment_id full_refund)) = None"
    by code_simp
  show ?thesis
    using refund_without_record [OF h1 h2, of sample_env] by (simp add: empty_world_def)
qed

text \<open>
  The claim as stated fails: with no Payment recorded at all, a refund of \<open>pay_1\<close> is
  sent to the gateway and answered with success.
\<close>

theorem refund_without_record_counterexample:
  "Payment_findOne empty_world ''pay_1'' = None \<and>
   post_refund sample_env empty_world full_refund =
     (Inr \<lparr>rf_refund_id = ''rfnd_1'', rf_amount = 499, rf_status = ''processed'',
           rf_created_at = 3\<rparr>,
      \<lparr>orders = [], payments = [],
       gateway_log =
         [Payments_refund ''pay_1''
            \<lparr>ro_payment_id = ''pay_1'', ro_notes = [(''reason'', ''Customer request'')],
             ro_amount = None\<rparr>]\<rparr>)"
  by code_simp

section \<open>Payment status updates\<close>

text \<open>
  C7. The claim is what the route is written to do; the route never gets there. For
  every recognised status the update document reads the \<open>payment\<close> constant that the
  same statement is still initialising, so the route answers 500 and the Payment is
  not updated: no status change, no timestamp.
\<close>

theorem status_update_never_applies:
  assumes "s \<in> set validStatuses"
  shows "put_payment_status t w ident (Some s) =
     (Inl (Status500 ''Something went wrong!''
             (ReferenceError ''Cannot access payment before initialization'')), w)"
  using assms by (simp add: put_payment_status_def read_binding_def)

theorem status_update_never_applies_witness:
  "put_payment_status 5 settled_world ''000000000000000000000002'' (Some ''Completed'') =
     (Inl (Status500 ''Something went wrong!''
             (ReferenceError ''Cannot access payment before initialization'')), settled_world)"
proof -
  have h: "''Completed'' \<in> set validStatuses"
    by (simp add: validStatuses_def)
  show ?thesis
    by (rule status_update_never_applies [OF h])
qed

section \<open>Order totals\<close>

text \<open>
  C8, as amended. The generic order-creation route persists an Order only with
  \<open>pricing.total\<close> above zero, and refuses a request whose total is absent, zero or
  negative with a 400 answer that persists nothing. The settlement route has no such
  check: the total of the Order it persists is the draft's \<open>totalPrice\<close>, or zero when
  the draft has none, and the schema only requires that it is not negative.
\<close>

theorem order_total_by_entry_point:
  "(orders (snd (post_orders w body)) = orders w \<or>
      (\<exists>io. orders (snd (post_orders w body)) = orders w @ [io] \<and>
            0 < total (o_pricing (snd io)))) \<and>
   (or_num (Option.bind (op_pricing body) pp_total) 0 \<le> 0 \<longrightarrow>
      (\<exists>msg. post_orders w body = (Inl (Status400 msg), w))) \<and>
   (orders (snd (post_verify_payment e w r)) = orders w \<or>
      (\<exists>io. orders (snd (post_verify_payment e w r)) = orders w @ [io] \<and>
            total (o_pricing (snd io)) = or_num (Option.bind (orderData r) od_totalPrice) 0 \<and>
            0 \<le> total (o_pricing (snd io))))"
proof (intro conjI impI)
  show "orders (snd (post_orders w body)) = orders w \<or>
      (\<exists>io. orders (snd (post_orders w body)) = orders w @ [io] \<and>
            0 < total (o_pricing (snd io)))"
  proof (cases "Order_create w body")
    case (Pair res w1)
    from Order_create_cases [OF Pair] show ?thesis
    proof
      assume "\<exists>x. res = Inl x \<and> w1 = w"
      with Pair show ?thesis
        by (auto simp: post_orders_def)
    next
      assume "\<exists>doc. res = Inr (fresh_id w, doc) \<and> cast_order w body = Some doc \<and>
                w1 = w\<lparr>orders := orders w @ [(fresh_id w, doc)]\<rparr>"
      then obtain doc where r: "res = Inr (fresh_id w, doc)"
        and c: "cast_order w body = Some doc"
        and w1: "w1 = w\<lparr>orders := orders w @ [(fresh_id w, doc)]\<rparr>"
        by blast
      show ?thesis
      proof (cases "op_pricing body")
        case None
        then show ?thesis by (simp add: post_orders_def)
      next
        case (Some p)
        from cast_order_fields(2) [OF c] Some
        have "pp_total p = Some (total (o_pricing doc))"
          using cast_pricing_total(1) by simp
        with Some Pair r w1 show ?thesis
          by (auto simp: post_orders_def truthy_num_def or_num_def)
      qed
    qed
  qed
next
  assume "or_num (Option.bind (op_pricing body) pp_total) 0 \<le> 0"
  then show "\<exists>msg. post_orders w body = (Inl (Status400 msg), w)"
    by (simp add: post_orders_def)
next
  show "orders (snd (post_verify_payment e w r)) = orders w \<or>
      (\<exists>io. orders (snd (post_verify_payment e w r)) = orders w @ [io] \<and>
            total (o_pricing (snd io)) = or_num (Option.bind (orderData r) od_totalPrice) 0 \<and>
            0 \<le> total (o_pricing (snd io)))"
  proof (cases "post_verify_payment e w r")
    case (Pair res w')
    from pvp_orders [OF Pair] show ?thesis
    proof
      assume "orders w' = orders w"
      with Pair show ?thesis by simp
    next
      assume "\<exists>io wx. cast_order wx (orderPayload (val_str (razorpay_payment_id r)) (orderData r))
                    = Some (snd io) \<and> orders w' = orders w @ [io]"
      then obtain io wx where
        c: "cast_order wx (orderPayload (val_str (razorpay_payment_id r)) (orderData r))
              = Some (snd io)"
        and o: "orders w' = orders w @ [io]"
        by blast
      from cast_pricing_orderPayload [OF cast_order_fields(2) [OF c]] o Pair
      show ?thesis by auto
    qed
  qed
qed

theorem order_total_by_entry_point_witness:
  "(\<exists>io. orders (snd (post_orders empty_world sample_order_body)) = orders empty_world @ [io] \<and>
         0 < total (o_pricing (snd io))) \<and>
   (\<exists>msg. post_orders empty_world
            (sample_order_body\<lparr>op_pricing := Some \<lparr>pp_subtotal = Some 0, pp_tax = None,
               pp_shipping = None, pp_discount = None, pp_total = Some 0\<rparr>\<rparr>)
          = (Inl (Status400 msg), empty_world)) \<and>
   (\<exists>io. orders (snd (post_verify_payment sample_env empty_world linked_callback))
           = orders empty_world @ [io] \<and>
         total (o_pricing (snd io)) = 499)"
proof -
  have a: "orders (snd (post_orders empty_world sample_order_body)) \<noteq> orders empty_world"
    by code_simp
  have b: "or_num (Option.bind (op_pricing
             (sample_order_body\<lparr>op_pricing := Some \<lparr>pp_subtotal = Some 0, pp_tax = None,
               pp_shipping = None, pp_discount = None, pp_total = Some 0\<rparr>\<rparr>)) pp_total) 0 \<le> 0"
    by code_simp
  have c: "orders (snd (post_verify_payment sample_env empty_world linked_callback))
           \<noteq> orders empty_world"
    by code_simp
  have d: "or_num (Option.bind (orderData linked_callback) od_totalPrice) 0 = 499"
    by code_simp
  from order_total_by_entry_point [of empty_world sample_order_body]
  have 1: "\<exists>io. orders (snd (post_orders empty_world sample_order_body)) = orders empty_world @ [io] \<and>
         0 < total (o_pricing (snd io))"
    using a by blast
  from order_total_by_entry_point
    [of empty_world "sample_order_body\<lparr>op_pricing := Some \<lparr>pp_subtotal = Some 0, pp_tax = None,
               pp_shipping = None, pp_discount = None, pp_total = Some 0\<rparr>\<rparr>"]
  have 2: "\<exists>msg. post_orders empty_world
            (sample_order_body\<lparr>op_pricing := Some \<lparr>pp_subtotal = Some 0, pp_tax = None,
               pp_shipping = None, pp_discount = None, pp_total = Some 0\<rparr>\<rparr>)
          = (Inl (Status400 msg), empty_world)"
    using b by blast
  have 3: "\<exists>io. orders (snd (post_verify_payment sample_env empty_world linked_callback))
           = orders empty_world @ [io] \<and> total (o_pricing (snd io)) = 499"
  proof -
    from order_total_by_entry_point [of empty_world sample_order_body sample_env linked_callback]
    have "orders (snd (post_verify_payment sample_env empty_world linked_callback))
            = orders empty_world \<or>
          (\<exists>io. orders (snd (post_verify_payment sample_env empty_world linked_callback))
                  = orders empty_world @ [io] \<and>
                total (o_pricing (snd io))
                  = or_num (Option.bind (orderData linked_callback) od_totalPrice) 0 \<and>
                0 \<le> total (o_pricing (snd io)))"
      by blast
    with c obtain io where
      "orders (snd (post_verify_payment sample_env empty_world linked_callback))
         = orders empty_world @ [io]"
      and "total (o_pricing (snd io))
         = or_num (Option.bind (orderData linked_callback) od_totalPrice) 0"
      by blast
    with d show ?thesis
      by (intro exI [of _ io]) simp
  qed
  from 1 2 3 show ?thesis by blast
qed

text \<open>
  The claim as stated fails: the sample callback, whose draft is absent, is settled with
  an Order whose total is zero.
\<close>

theorem order_total_counterexample:
  "\<not> isl (fst (post_verify_payment sample_env empty_world sample_callback)) \<and>
   map (total \<circ> o_pricing \<circ> snd)
     (orders (snd (post_verify_payment sample_env empty_world sample_callback))) = [0]"
  by code_simp

section \<open>Amounts sent to the gateway\<close>

text \<open>
  C9, as amended. Both conversions are \<open>Math.round(amount * 100)\<close>. For every amount
  that crosses the gateway boundary, in a valid intent request or a partial refund, the
  amount sent is the double product of the amount and 100 rounded to the nearest integer,
  a tie going up rather than to the even neighbour. It is taken from the double product,
  not from the decimal one, and it is banker's rounding of that product except at the
  ties whose lower neighbour is even, where it is one more.
\<close>

theorem gateway_amounts_round_half_up:
  assumes "is_double a" and "a * 100 \<le> max_double" and "0 < a"
  shows
    "(co_amount r = Some a \<and> truthy_str (co_receipt r) \<and>
      (co_currency r = None \<or> co_currency r = Some ''INR'') \<longrightarrow>
        gateway_log (snd (post_create_order e w r))
          = gateway_log w @
              [Orders_create
                 \<lparr>oo_amount = \<lfloor>fmul a 100 + 1 / 2\<rfloor>, oo_currency = ''INR'',
                  oo_receipt = val_str (co_receipt r),
                  oo_notes = (case co_notes r of None \<Rightarrow> [] | Some n \<Rightarrow> n)\<rparr>]) \<and>
     (rr_amount q = Some a \<and> truthy_str (rr_payment_id q) \<longrightarrow>
        gateway_log (snd (post_refund e w q))
          = gateway_log w @
              [Payments_refund (val_str (rr_payment_id q))
                 \<lparr>ro_payment_id = val_str (rr_payment_id q),
                  ro_notes =
                    (case rr_notes q of None \<Rightarrow> [(''reason'', ''Customer request'')]
                     | Some n \<Rightarrow> n),
                  ro_amount = Some \<lfloor>fmul a 100 + 1 / 2\<rfloor>\<rparr>]) \<and>
     (\<lfloor>fmul a 100 + 1 / 2\<rfloor> = bankers_round (fmul a 100) \<or>
        (fmul a 100 - of_int \<lfloor>fmul a 100\<rfloor> = 1 / 2 \<and> even \<lfloor>fmul a 100\<rfloor> \<and>
         \<lfloor>fmul a 100 + 1 / 2\<rfloor> = bankers_round (fmul a 100) + 1))"
proof (intro conjI impI)
  assume "co_amount r = Some a \<and> truthy_str (co_receipt r) \<and>
      (co_currency r = None \<or> co_currency r = Some ''INR'')"
  with assms(3) show "gateway_log (snd (post_create_order e w r))
          = gateway_log w @
              [Orders_create
                 \<lparr>oo_amount = \<lfloor>fmul a 100 + 1 / 2\<rfloor>, oo_currency = ''INR'',
                  oo_receipt = val_str (co_receipt r),
                  oo_notes = (case co_notes r of None \<Rightarrow> [] | Some n \<Rightarrow> n)\<rparr>]"
    by (auto simp: post_create_order_def Let_def to_paise_def Math_round_def
        supportedCurrencies_def split: sum.splits)
next
  assume "rr_amount q = Some a \<and> truthy_str (rr_payment_id q)"
  with assms(3) show "gateway_log (snd (post_refund e w q))
          = gateway_log w @
              [Payments_refund (val_str (rr_payment_id q))
                 \<lparr>ro_payment_id = val_str (rr_payment_id q),
                  ro_notes =
                    (case rr_notes q of None \<Rightarrow> [(''reason'', ''Customer request'')]
                     | Some n \<Rightarrow> n),
                  ro_amount = Some \<lfloor>fmul a 100 + 1 / 2\<rfloor>\<rparr>]"
    by (auto simp: post_refund_def Let_def to_paise_def Math_round_def refundOptions_def
        Payment_save_def split: option.splits sum.splits prod.splits)
next
  show "\<lfloor>fmul a 100 + 1 / 2\<rfloor> = bankers_round (fmul a 100) \<or>
        (fmul a 100 - of_int \<lfloor>fmul a 100\<rfloor> = 1 / 2 \<and> even \<lfloor>fmul a 100\<rfloor> \<and>
         \<lfloor>fmul a 100 + 1 / 2\<rfloor> = bankers_round (fmul a 100) + 1)"
    using Math_round_vs_bankers [of "fmul a 100"] by (simp add: Math_round_def)
qed

theorem gateway_amounts_witness:
  "gateway_log (snd (post_create_order sample_env empty_world eighth_rupee_order))
     = gateway_log empty_world @
         [Orders_create
            \<lparr>oo_amount = \<lfloor>fmul (1 / 8) 100 + 1 / 2\<rfloor>, oo_currency = ''INR'',
             oo_receipt = val_str (co_receipt eighth_rupee_order),
             oo_notes = (case co_notes eighth_rupee_order of None \<Rightarrow> [] | Some n \<Rightarrow> n)\<rparr>] \<and>
   gateway_log (snd (post_refund sample_env empty_world eighth_rupee_refund))
     = gateway_log empty_world @
         [Payments_refund (val_str (rr_payment_id eighth_rupee_refund))
            \<lparr>ro_payment_id = val_str (rr_payment_id eighth_rupee_refund),
             ro_notes =
               (case rr_notes eighth_rupee_refund of
                  None \<Rightarrow> [(''reason'', ''Customer request'')] | Some n \<Rightarrow> n),
             ro_amount = Some \<lfloor>fmul (1 / 8) 100 + 1 / 2\<rfloor>\<rparr>] \<and>
   \<lfloor>fmul (1 / 8) 100 + 1 / 2\<rfloor> = 13"
proof -
  have h1: "is_double (1 / 8)"
    by code_simp
  have h2: "(1 / 8 :: rat) * 100 \<le> max_double"
    by code_simp
  have h3: "(0 :: rat) < 1 / 8"
    by simp
  have a: "co_amount eighth_rupee_order = Some (1 / 8) \<and>
           truthy_str (co_receipt eighth_rupee_order) \<and>
           (co_currency eighth_rupee_order = None \<or> co_currency eighth_rupee_order = Some ''INR'')"
    by (simp add: eighth_rupee_order_def truthy_str_def)
  have b: "rr_amount eighth_rupee_refund = Some (1 / 8) \<and>
           truthy_str (rr_payment_id eighth_rupee_refund)"
    by (simp add: eighth_rupee_refund_def truthy_str_def)
  have c: "\<lfloor>fmul (1 / 8) 100 + 1 / 2\<rfloor> = 13"
    by code_simp
  from gateway_amounts_round_half_up [OF h1 h2 h3,
      where r = eighth_rupee_order and q = eighth_rupee_refund and e = sample_env
        and w = empty_world] a b c
  show ?thesis
    by blast
qed

text \<open>
  The claim as stated fails: an amount of one eighth of a rupee, a double, is 12.5 paise
  exactly; the route sends 13 and banker's rounding makes 12.
\<close>

theorem gateway_amounts_counterexample:
  "is_double (1 / 8) \<and>
   gateway_log (snd (post_create_order sample_env empty_world eighth_rupee_order))
     = [Orders_create \<lparr>oo_amount = 13, oo_currency = ''INR'', oo_receipt = ''R-1'',
                       oo_notes = []\<rparr>] \<and>
   bankers_round (1 / 8 * 100) = 12"
  by code_simp

section \<open>The Order's payment summary after settlement\<close>

text \<open>
  C10. Every Order the settlement route persists has the embedded payment status
  \<open>Pending\<close> and no \<open>paidAt\<close>, and when the route answers success for a payment the
  gateway reports as captured, the Payment it has stored beside that Order has status
  \<open>Completed\<close>.
\<close>

theorem settled_order_summary_pending:
  assumes "post_verify_payment e w r = (res, w')"
  shows "(orders w' = orders w \<or>
            (\<exists>io. orders w' = orders w @ [io] \<and>
                  ps_status (o_payment (snd io)) = ''Pending'' \<and>
                  ps_paidAt (o_payment (snd io)) = None)) \<and>
         (\<forall>resp. res = Inr resp \<and> vr_status resp = ''captured'' \<longrightarrow>
            (\<exists>gp. payments_fetch e (val_str (razorpay_payment_id r)) = Inr gp \<and>
                  gp_status gp = ''captured'') \<and>
            orders w' \<noteq> orders w \<and>
            payments w' = payments w @ [vr_payment resp] \<and>
            p_status (snd (vr_payment resp)) = ''Completed'')"
proof (intro conjI allI impI)
  from pvp_orders [OF assms]
  show "orders w' = orders w \<or>
            (\<exists>io. orders w' = orders w @ [io] \<and>
                  ps_status (o_payment (snd io)) = ''Pending'' \<and>
                  ps_paidAt (o_payment (snd io)) = None)"
  proof
    assume "orders w' = orders w"
    then show ?thesis by simp
  next
    assume "\<exists>io wx. cast_order wx (orderPayload (val_str (razorpay_payment_id r)) (orderData r))
                  = Some (snd io) \<and> orders w' = orders w @ [io]"
    then obtain io wx where
      c: "cast_order wx (orderPayload (val_str (razorpay_payment_id r)) (orderData r))
            = Some (snd io)"
      and o: "orders w' = orders w @ [io]"
      by blast
    from cast_summary_orderPayload [OF cast_order_fields(1) [OF c]] o
    show ?thesis by blast
  qed
next
  fix resp
  assume h: "res = Inr resp \<and> vr_status resp = ''captured''"
  with assms have ok: "post_verify_payment e w r = (Inr resp, w')" by simp
  from pvp_success [OF ok] obtain gp io wy where
    f: "payments_fetch e (val_str (razorpay_payment_id r)) = Inr gp"
    and s: "vr_status resp = gp_status gp"
    and o: "orders w' = orders w @ [io]"
    and p: "payments w' = payments w @ [vr_payment resp]"
    and c: "cast_payment wy (now e) cast_id (\<lambda>c. cast_customerInfo (Some c))
             (link_orderId (orderData r)
                (paymentData (now e) (val_str (razorpay_order_id r))
                   (val_str (razorpay_payment_id r)) (val_str (razorpay_signature r))
                   (orderData r) gp io)) = Some (snd (vr_payment resp))"
    by blast
  from f s h show "\<exists>gp. payments_fetch e (val_str (razorpay_payment_id r)) = Inr gp \<and>
                  gp_status gp = ''captured''"
    by simp
  from o show "orders w' \<noteq> orders w" by simp
  from p show "payments w' = payments w @ [vr_payment resp]" .
  from settled_status [OF c] s h show "p_status (snd (vr_payment resp)) = ''Completed''"
    by simp
qed

theorem settled_order_summary_witness:
  "\<exists>io. orders settled_world = orders empty_world @ [io] \<and>
        ps_status (o_payment (snd io)) = ''Pending'' \<and>
        ps_paidAt (o_payment (snd io)) = None \<and>
        p_status (snd (vr_payment
           (projr (fst (post_verify_payment sample_env empty_world sample_callback)))))
          = ''Completed''"
proof -
  have ok: "\<not> isl (fst (post_verify_payment sample_env empty_world sample_callback))"
    by code_simp
  have first: "post_verify_payment sample_env empty_world sample_callback
      = (Inr (projr (fst (post_verify_payment sample_env empty_world sample_callback))),
         settled_world)"
    using ok by (simp add: settled_world_def prod_eq_iff)
  have cap: "vr_status (projr (fst (post_verify_payment sample_env empty_world sample_callback)))
             = ''captured''"
    by code_simp
  from settled_order_summary_pending [OF first] cap show ?thesis
    by blast
qed

end
